theory Spec2Isabelle
  imports Main "HOL-Library.Code_Target_Nat"
begin

section \<open>Sistema de Pedidos: data model\<close>

text \<open>
  The repository is a FastAPI application over SQLAlchemy. The three mapped classes of
  \<^verbatim>\<open>models.py\<close> become records, the database session becomes a record of the three
  tables (each a list of rows in primary-key order), and a route handler becomes a
  function from the session to a result and the session after \<^verbatim>\<open>commit\<close>.
  An exception is the left summand of the result; a handler that raises leaves the
  committed tables as they were.

  Python strings are modelled as byte strings (UTF-8), so the accented letters of the
  messages are written as their two bytes.
\<close>

datatype exn =
  HTTPException (status_code: nat) (detail: string) (headers: "(string \<times> string) list")
  | ValueError
  | AttributeError
  | OverflowError

text \<open>\<^verbatim>\<open>class Usuario(Base)\<close>; the column \<^verbatim>\<open>id\<close> is \<open>usuario_id\<close>.\<close>

record Usuario =
  usuario_id :: int
  nome :: string
  email :: string
  senha :: string
  ativo :: bool
  admin :: bool

text \<open>
  \<^verbatim>\<open>class ItemPedidoSchema(BaseModel)\<close> and \<^verbatim>\<open>class ItemPedido(Base)\<close>: the mapped
  class has the four fields of the schema, its \<^verbatim>\<open>id\<close> (\<open>item_id\<close>) and the foreign key
  \<^verbatim>\<open>pedido\<close>. The type \<open>'f\<close> stands for Python's \<^verbatim>\<open>float\<close>: no law of arithmetic is
  assumed of it. The bounds of the schema (\<^verbatim>\<open>quantidade\<close> at least 1, \<^verbatim>\<open>preco_unitario\<close>
  at least 0) are checked by the framework before a handler runs; the handlers do not
  read them.
\<close>

record 'f ItemPedidoSchema =
  quantidade :: int
  sabor :: string
  tamanho :: string
  preco_unitario :: 'f

record 'f ItemPedido = "'f ItemPedidoSchema" +
  item_id :: int
  pedido :: int

text \<open>
  \<^verbatim>\<open>class Pedido(Base)\<close>; the column \<^verbatim>\<open>id\<close> is \<open>pedido_id\<close>, \<^verbatim>\<open>usuario\<close> is the
  foreign key to the owner. The relationship \<^verbatim>\<open>itens\<close> is \<open>itens\<close> below.
\<close>

record 'f Pedido =
  pedido_id :: int
  status :: string
  usuario :: int
  preco :: 'f

record 'f Session =
  usuarios :: "Usuario list"
  pedidos :: "'f Pedido list"
  itens_pedido :: "'f ItemPedido list"

text \<open>
  \<^verbatim>\<open>autoincrement=True\<close> on an integer primary key: the next id is one more than the
  largest id of the table (1 for an empty table).
\<close>

definition novo_id :: "int list \<Rightarrow> int" where
  "novo_id ids = fold max ids 0 + 1"

text \<open>
  \<^verbatim>\<open>pedido.itens\<close>, the relationship of \<^verbatim>\<open>models.py\<close>: the rows of \<^verbatim>\<open>itens_pedido\<close>
  whose foreign key is the order's id, loaded from the table when the attribute is
  first read. The session comes from \<^verbatim>\<open>pegar_sessao\<close> of \<^verbatim>\<open>dependencies.py\<close>, which is
  not among the sources; it is taken to be SQLAlchemy's default session, which flushes
  its pending inserts and deletes before it loads the relationship. That is the
  reading of the specification too (section 4.3): the price is recomputed over the
  order's current item set, after the insert or the delete.
\<close>

definition itens :: "'f Session \<Rightarrow> 'f Pedido \<Rightarrow> 'f ItemPedido list" where
  "itens session ped = filter (\<lambda>item. pedido item = pedido_id ped) (itens_pedido session)"

text \<open>
  What \<^verbatim>\<open>calcular_preco\<close> takes from the interpreter: \<open>to_float\<close>, the conversion of
  an integer operand to \<^verbatim>\<open>float\<close>, and \<open>py_sum\<close>, the builtin \<^verbatim>\<open>sum\<close> on the list of
  the products. The builtin is a parameter because its value on floats depends on the
  interpreter: a left fold of \<^verbatim>\<open>+\<close> up to CPython 3.11, a compensated sum from 3.12,
  and the sources name no version.
\<close>

record 'f float_ops =
  to_float :: "int \<Rightarrow> 'f"
  py_sum :: "'f list \<Rightarrow> 'f"

text \<open>
  \<^verbatim>\<open>self.preco = sum(item.preco_unitario * item.quantidade for item in self.itens)\<close>.
\<close>

definition calcular_preco ::
  "'f::times float_ops \<Rightarrow> 'f Session \<Rightarrow> 'f Pedido \<Rightarrow> 'f Pedido" where
  "calcular_preco py session ped =
     ped\<lparr>preco := py_sum py
       (map (\<lambda>item. preco_unitario item * to_float py (quantidade item)) (itens session ped))\<rparr>"

text \<open>
  The database is SQLite (\<^verbatim>\<open>create_engine("sqlite:///banco.db")\<close>): an integer bound
  to a statement must fit in 64 signed bits, and the driver raises
  \<^verbatim>\<open>OverflowError\<close> for any other. Path parameters and schema fields declared
  \<^verbatim>\<open>int\<close> are unbounded.
\<close>

definition sqlite_int :: "int \<Rightarrow> bool" where
  "sqlite_int i \<longleftrightarrow> - (2 ^ 63) \<le> i \<and> i < 2 ^ 63"

section \<open>order\_routes.py\<close>

definition msg_pedido_nao_encontrado :: string where
  "msg_pedido_nao_encontrado = ''Pedido n'' @ [CHR 0xC3, CHR 0xA3] @ ''o encontrado''"

definition msg_item_nao_encontrado :: string where
  "msg_item_nao_encontrado = ''Item de pedido n'' @ [CHR 0xC3, CHR 0xA3] @ ''o encontrado''"

definition msg_sem_autorizacao_acao :: string where
  "msg_sem_autorizacao_acao =
     ''Voc'' @ [CHR 0xC3, CHR 0xAA] @ '' n'' @ [CHR 0xC3, CHR 0xA3] @ ''o tem autoriza''
     @ [CHR 0xC3, CHR 0xA7, CHR 0xC3, CHR 0xA3] @ ''o para realizar esta a''
     @ [CHR 0xC3, CHR 0xA7, CHR 0xC3, CHR 0xA3] @ ''o''"

definition msg_sem_autorizacao_rota :: string where
  "msg_sem_autorizacao_rota =
     ''Voc'' @ [CHR 0xC3, CHR 0xAA] @ '' n'' @ [CHR 0xC3, CHR 0xA3] @ ''o tem autoriza''
     @ [CHR 0xC3, CHR 0xA7, CHR 0xC3, CHR 0xA3] @ ''o para acessar esta rota''"

definition msg_cancelar :: "string \<Rightarrow> string" where
  "msg_cancelar st =
     ''N'' @ [CHR 0xC3, CHR 0xA3] @ ''o '' @ [CHR 0xC3, CHR 0xA9] @ '' poss''
     @ [CHR 0xC3, CHR 0xAD] @ ''vel cancelar um pedido com status '' @ [CHR 0x27] @ st
     @ [CHR 0x27]"

definition msg_finalizar :: string where
  "msg_finalizar =
     ''S'' @ [CHR 0xC3, CHR 0xB3] @ '' '' @ [CHR 0xC3, CHR 0xA9] @ '' poss''
     @ [CHR 0xC3, CHR 0xAD] @ ''vel finalizar um pedido com status '' @ [CHR 0x27]
     @ ''EM_PREPARO'' @ [CHR 0x27]"

text \<open>
  \<^verbatim>\<open>obter_pedido_autorizado(id_pedido, session, usuario)\<close>: the authenticated user is
  what the dependency \<^verbatim>\<open>verificar_token\<close> returned, a stored account. The query binds
  \<^verbatim>\<open>id_pedido\<close>, so an id outside 64 bits raises before any row is looked for.
\<close>

definition obter_pedido_autorizado ::
  "int \<Rightarrow> 'f Session \<Rightarrow> Usuario \<Rightarrow> exn + 'f Pedido" where
  "obter_pedido_autorizado id_pedido session usr =
     (if \<not> sqlite_int id_pedido then Inl OverflowError
      else
        (case find (\<lambda>p. pedido_id p = id_pedido) (pedidos session) of
           None \<Rightarrow> Inl (HTTPException 404 msg_pedido_nao_encontrado [])
         | Some ped \<Rightarrow>
             if \<not> admin usr \<and> usuario_id usr \<noteq> usuario ped
             then Inl (HTTPException 403 msg_sem_autorizacao_acao [])
             else Inr ped))"

text \<open>
  \<^verbatim>\<open>obter_item_pedido_autorizado(id_item_pedido, session, usuario)\<close>. When the item's
  order is not in the table, \<^verbatim>\<open>pedido_do_item\<close> is \<^verbatim>\<open>None\<close>: \<^verbatim>\<open>not usuario.admin and ...\<close>
  reads \<^verbatim>\<open>pedido_do_item.usuario\<close> only for a user who is not an administrator, and
  that read raises \<^verbatim>\<open>AttributeError\<close>. The first query binds \<^verbatim>\<open>id_item_pedido\<close>; the
  second binds the stored foreign key.
\<close>

definition obter_item_pedido_autorizado ::
  "int \<Rightarrow> 'f Session \<Rightarrow> Usuario \<Rightarrow> exn + 'f ItemPedido" where
  "obter_item_pedido_autorizado id_item_pedido session usr =
     (if \<not> sqlite_int id_item_pedido then Inl OverflowError
      else
        (case find (\<lambda>i. item_id i = id_item_pedido) (itens_pedido session) of
           None \<Rightarrow> Inl (HTTPException 404 msg_item_nao_encontrado [])
         | Some item_pedido \<Rightarrow>
             if \<not> admin usr then
               (case find (\<lambda>p. pedido_id p = pedido item_pedido) (pedidos session) of
                  None \<Rightarrow> Inl AttributeError
                | Some pedido_do_item \<Rightarrow>
                    if usuario_id usr \<noteq> usuario pedido_do_item
                    then Inl (HTTPException 403 msg_sem_autorizacao_acao [])
                    else Inr item_pedido)
             else Inr item_pedido))"

definition listar_todos_pedidos :: "'f Session \<Rightarrow> Usuario \<Rightarrow> exn + 'f Pedido list" where
  "listar_todos_pedidos session usr =
     (if \<not> admin usr then Inl (HTTPException 403 msg_sem_autorizacao_rota [])
      else Inr (pedidos session))"

text \<open>
  \<^verbatim>\<open>criar_pedido\<close>: \<^verbatim>\<open>Pedido(usuario=usuario.id)\<close> with the constructor's defaults
  \<^verbatim>\<open>status="PENDENTE"\<close> and \<^verbatim>\<open>preco=0\<close>.
\<close>

definition criar_pedido ::
  "'f float_ops \<Rightarrow> Usuario \<Rightarrow> 'f Session \<Rightarrow> 'f Pedido \<times> 'f Session" where
  "criar_pedido py usr session =
     (let novo_pedido = \<lparr>pedido_id = novo_id (map pedido_id (pedidos session)),
            status = ''PENDENTE'', usuario = usuario_id usr, preco = to_float py 0\<rparr>
      in (novo_pedido, session\<lparr>pedidos := pedidos session @ [novo_pedido]\<rparr>))"

definition listar_meus_pedidos :: "Usuario \<Rightarrow> 'f Session \<Rightarrow> exn + 'f Pedido list" where
  "listar_meus_pedidos usr session =
     Inr (filter (\<lambda>p. usuario p = usuario_id usr) (pedidos session))"

definition visualizar_pedido :: "'f Pedido \<Rightarrow> 'f Pedido" where
  "visualizar_pedido ped = ped"

text \<open>
  \<^verbatim>\<open>session.commit()\<close> after an assignment to \<^verbatim>\<open>pedido.status\<close> or \<^verbatim>\<open>pedido.preco\<close>:
  the column is written in the row of that primary key.
\<close>

definition commit_status :: "int \<Rightarrow> string \<Rightarrow> 'f Session \<Rightarrow> 'f Session" where
  "commit_status pid st session =
     session\<lparr>pedidos :=
       map (\<lambda>p. if pedido_id p = pid then p\<lparr>status := st\<rparr> else p) (pedidos session)\<rparr>"

definition commit_preco :: "int \<Rightarrow> 'f \<Rightarrow> 'f Session \<Rightarrow> 'f Session" where
  "commit_preco pid v session =
     session\<lparr>pedidos :=
       map (\<lambda>p. if pedido_id p = pid then p\<lparr>preco := v\<rparr> else p) (pedidos session)\<rparr>"

definition cancelar_pedido ::
  "'f Pedido \<Rightarrow> 'f Session \<Rightarrow> (exn + 'f Pedido) \<times> 'f Session" where
  "cancelar_pedido ped session =
     (if status ped \<notin> set [''PENDENTE'', ''EM_PREPARO'']
      then (Inl (HTTPException 400 (msg_cancelar (status ped)) []), session)
      else (Inr (ped\<lparr>status := ''CANCELADO''\<rparr>),
            commit_status (pedido_id ped) ''CANCELADO'' session))"

definition finalizar_pedido ::
  "'f Pedido \<Rightarrow> 'f Session \<Rightarrow> (exn + 'f Pedido) \<times> 'f Session" where
  "finalizar_pedido ped session =
     (if status ped \<noteq> ''EM_PREPARO''
      then (Inl (HTTPException 400 msg_finalizar []), session)
      else (Inr (ped\<lparr>status := ''FINALIZADO''\<rparr>),
            commit_status (pedido_id ped) ''FINALIZADO'' session))"

text \<open>
  \<^verbatim>\<open>adicionar_item_pedido\<close>: \<^verbatim>\<open>session.add(item_pedido)\<close> makes the new row pending;
  \<^verbatim>\<open>pedido.calcular_preco()\<close> reads \<^verbatim>\<open>pedido.itens\<close>, which flushes the insert and
  loads the order's rows; \<^verbatim>\<open>commit\<close> writes the price. The insert binds
  \<^verbatim>\<open>quantidade\<close>, which the schema bounds from below only: outside 64 bits the flush
  raises and nothing is committed.
\<close>

definition adicionar_item_pedido ::
  "'f::times float_ops \<Rightarrow> 'f ItemPedidoSchema \<Rightarrow> 'f Pedido \<Rightarrow> 'f Session
     \<Rightarrow> (exn + 'f Pedido) \<times> 'f Session" where
  "adicionar_item_pedido py item_schema ped session =
     (if \<not> sqlite_int (quantidade item_schema) then (Inl OverflowError, session)
      else
        (let item_pedido = \<lparr>quantidade = quantidade item_schema, sabor = sabor item_schema,
               tamanho = tamanho item_schema, preco_unitario = preco_unitario item_schema,
               item_id = novo_id (map item_id (itens_pedido session)),
               pedido = pedido_id ped\<rparr>;
             flushed = session\<lparr>itens_pedido := itens_pedido session @ [item_pedido]\<rparr>;
             ped' = calcular_preco py flushed ped
         in (Inr ped', commit_preco (pedido_id ped) (preco ped') flushed)))"

text \<open>
  \<^verbatim>\<open>remover_item_pedido\<close>: the order is looked up by the item's foreign key;
  \<^verbatim>\<open>session.delete(item_pedido)\<close> is flushed when \<^verbatim>\<open>pedido.calcular_preco()\<close> reads
  \<^verbatim>\<open>pedido.itens\<close>. When the order is not in the table, \<^verbatim>\<open>pedido\<close> is \<^verbatim>\<open>None\<close> and
  the call of its method raises \<^verbatim>\<open>AttributeError\<close> before anything is committed.
\<close>

definition remover_item_pedido ::
  "'f::times float_ops \<Rightarrow> 'f ItemPedido \<Rightarrow> 'f Session
     \<Rightarrow> (exn + 'f Pedido) \<times> 'f Session" where
  "remover_item_pedido py item_pedido session =
     (case find (\<lambda>p. pedido_id p = pedido item_pedido) (pedidos session) of
        None \<Rightarrow> (Inl AttributeError, session)
      | Some ped \<Rightarrow>
          (let flushed = session\<lparr>itens_pedido :=
                 filter (\<lambda>i. item_id i \<noteq> item_id item_pedido) (itens_pedido session)\<rparr>;
               ped' = calcular_preco py flushed ped
           in (Inr ped', commit_preco (pedido_id ped) (preco ped') flushed)))"

text \<open>
  The routes: FastAPI resolves \<^verbatim>\<open>Depends(obter_pedido_autorizado)\<close> (or
  \<^verbatim>\<open>Depends(obter_item_pedido_autorizado)\<close>) and calls the handler with what it
  returned; an exception of the dependency is the response.
\<close>

definition rota_visualizar_pedido ::
  "int \<Rightarrow> Usuario \<Rightarrow> 'f Session \<Rightarrow> (exn + 'f Pedido) \<times> 'f Session" where
  "rota_visualizar_pedido id_pedido usr session =
     (case obter_pedido_autorizado id_pedido session usr of
        Inl e \<Rightarrow> (Inl e, session)
      | Inr ped \<Rightarrow> (Inr (visualizar_pedido ped), session))"

definition rota_cancelar_pedido ::
  "int \<Rightarrow> Usuario \<Rightarrow> 'f Session \<Rightarrow> (exn + 'f Pedido) \<times> 'f Session" where
  "rota_cancelar_pedido id_pedido usr session =
     (case obter_pedido_autorizado id_pedido session usr of
        Inl e \<Rightarrow> (Inl e, session)
      | Inr ped \<Rightarrow> cancelar_pedido ped session)"

definition rota_finalizar_pedido ::
  "int \<Rightarrow> Usuario \<Rightarrow> 'f Session \<Rightarrow> (exn + 'f Pedido) \<times> 'f Session" where
  "rota_finalizar_pedido id_pedido usr session =
     (case obter_pedido_autorizado id_pedido session usr of
        Inl e \<Rightarrow> (Inl e, session)
      | Inr ped \<Rightarrow> finalizar_pedido ped session)"

definition rota_adicionar_item_pedido ::
  "'f::times float_ops \<Rightarrow> int \<Rightarrow> 'f ItemPedidoSchema \<Rightarrow> Usuario \<Rightarrow> 'f Session
     \<Rightarrow> (exn + 'f Pedido) \<times> 'f Session" where
  "rota_adicionar_item_pedido py id_pedido item_schema usr session =
     (case obter_pedido_autorizado id_pedido session usr of
        Inl e \<Rightarrow> (Inl e, session)
      | Inr ped \<Rightarrow> adicionar_item_pedido py item_schema ped session)"

definition rota_remover_item_pedido ::
  "'f::times float_ops \<Rightarrow> int \<Rightarrow> Usuario \<Rightarrow> 'f Session
     \<Rightarrow> (exn + 'f Pedido) \<times> 'f Session" where
  "rota_remover_item_pedido py id_item_pedido usr session =
     (case obter_item_pedido_autorizado id_item_pedido session usr of
        Inl e \<Rightarrow> (Inl e, session)
      | Inr item_pedido \<Rightarrow> remover_item_pedido py item_pedido session)"

section \<open>Python's str and int on integers\<close>

text \<open>
  \<^verbatim>\<open>str(n)\<close> of an integer: its decimal digits, with a minus sign when negative.
\<close>

definition digit_char :: "nat \<Rightarrow> char" where
  "digit_char d = ''0123456789'' ! d"

fun str_nat :: "nat \<Rightarrow> string" where
  "str_nat n = (if n < 10 then [digit_char n] else str_nat (n div 10) @ [digit_char (n mod 10)])"

declare str_nat.simps [simp del]

definition str_int :: "int \<Rightarrow> string" where
  "str_int i = (if i < 0 then CHR ''-'' # str_nat (nat (- i)) else str_nat (nat i))"

text \<open>
  \<^verbatim>\<open>int(s)\<close> of a string, \<open>None\<close> when Python raises \<^verbatim>\<open>ValueError\<close>. For a string
  of ASCII characters: white space around the literal is skipped, then an optional
  sign, then decimal digits, where one underscore may stand between two digits.
\<close>

definition isspace :: "char \<Rightarrow> bool" where
  "isspace c = (c \<in> set [CHR '' '', CHR 0x09, CHR 0x0A, CHR 0x0B, CHR 0x0C, CHR 0x0D])"

definition digit_val :: "char \<Rightarrow> nat option" where
  "digit_val c =
     map_of [(CHR ''0'', 0), (CHR ''1'', 1), (CHR ''2'', 2), (CHR ''3'', 3), (CHR ''4'', 4),
             (CHR ''5'', 5), (CHR ''6'', 6), (CHR ''7'', 7), (CHR ''8'', 8), (CHR ''9'', 9)] c"

fun digits_value :: "int \<Rightarrow> string \<Rightarrow> int option" where
  "digits_value acc [] = Some acc"
| "digits_value acc (c # cs) =
     (case digit_val c of
        Some d \<Rightarrow> digits_value (10 * acc + int d) cs
      | None \<Rightarrow>
          if c = CHR ''_'' then
            (case cs of
               [] \<Rightarrow> None
             | c' # cs' \<Rightarrow>
                 (case digit_val c' of
                    None \<Rightarrow> None
                  | Some d \<Rightarrow> digits_value (10 * acc + int d) cs'))
          else None)"

definition strip :: "string \<Rightarrow> string" where
  "strip s = rev (dropWhile isspace (rev (dropWhile isspace s)))"

definition int_ascii :: "string \<Rightarrow> int option" where
  "int_ascii s =
     (let t = strip s;
          neg = (case t of [] \<Rightarrow> False | c # cs \<Rightarrow> c = CHR ''-'');
          body = (case t of [] \<Rightarrow> [] | c # cs \<Rightarrow> if c = CHR ''-'' \<or> c = CHR ''+'' then cs else t)
      in case body of
           [] \<Rightarrow> None
         | c # cs \<Rightarrow>
             (case digit_val c of
                None \<Rightarrow> None
              | Some d \<Rightarrow>
                  map_option (\<lambda>n. if neg then - n else n) (digits_value (int d) cs)))"

text \<open>
  Outside that fragment \<^verbatim>\<open>int\<close> is a parameter, \<open>outros\<close>: on a string with a
  character beyond ASCII (Python also reads the other Unicode decimal digits and
  white space), and on a string of more than 640 characters (from 640 digits on, the
  interpreter's limit on the length of a literal may refuse it).
\<close>

definition ascii :: "char \<Rightarrow> bool" where
  "ascii c \<longleftrightarrow> (of_char c :: nat) < 128"

definition py_int :: "(string \<Rightarrow> int option) \<Rightarrow> string \<Rightarrow> int option" where
  "py_int outros s =
     (if list_all ascii s \<and> length s \<le> 640 then int_ascii s else outros s)"

section \<open>auth\_routes.py\<close>

text \<open>
  What the routes take from outside the repository's code: the token library
  (\<^verbatim>\<open>jwt.encode\<close> and \<^verbatim>\<open>jwt.decode\<close> with the configured \<^verbatim>\<open>SECRET_KEY\<close> and
  \<^verbatim>\<open>ALGORITHM\<close>; \<open>None\<close> when \<^verbatim>\<open>decode\<close> raises \<^verbatim>\<open>JWTError\<close>), the password
  context (\<^verbatim>\<open>bcrypt_context.hash\<close>, \<open>Inl\<close> the text of the exception when it raises,
  which \<^verbatim>\<open>criar_conta\<close> catches; \<^verbatim>\<open>bcrypt_context.verify\<close>, \<open>Inl\<close> the exception when
  it raises, which nothing catches: passlib refuses a password with a NUL byte in both),
  \<^verbatim>\<open>int\<close> outside the fragment above, the clock in seconds, and
  \<^verbatim>\<open>ACCESS_TOKEN_EXPIRE_MINUTES\<close>. The decoded payload is read through its \<^verbatim>\<open>sub\<close>
  claim only; the library checks that a \<^verbatim>\<open>sub\<close> claim, when present, is a string.
\<close>

record payload =
  sub :: "string option"
  exp :: "int option"

record env =
  jwt_encode :: "payload \<Rightarrow> string"
  jwt_decode :: "string \<Rightarrow> payload option"
  bcrypt_hash :: "string \<Rightarrow> string + string"
  bcrypt_verify :: "string \<Rightarrow> string \<Rightarrow> exn + bool"
  int_outros :: "string \<Rightarrow> int option"
  now :: int
  ACCESS_TOKEN_EXPIRE_MINUTES :: int

record TokenSchema =
  access_token :: string
  refresh_token :: "string option"
  token_type :: string


record LoginSchema =
  login_email :: string
  login_senha :: string

text \<open>\<^verbatim>\<open>criar_token(id_usuario, duracao_token)\<close>, the duration in seconds.\<close>

definition criar_token :: "env \<Rightarrow> int \<Rightarrow> int \<Rightarrow> string" where
  "criar_token e id_usuario duracao_token =
     jwt_encode e \<lparr>sub = Some (str_int id_usuario), exp = Some (now e + duracao_token)\<rparr>"

text \<open>
  \<^verbatim>\<open>autenticar_usuario(email, senha, session)\<close> returns \<^verbatim>\<open>False\<close> (\<open>None\<close> here) or the
  user. \<^verbatim>\<open>bcrypt_context.verify\<close> is called only when the email is stored, and the
  function has no \<^verbatim>\<open>try\<close>: what the call raises, the function raises.
\<close>

definition autenticar_usuario ::
  "env \<Rightarrow> string \<Rightarrow> string \<Rightarrow> 'f Session \<Rightarrow> exn + Usuario option" where
  "autenticar_usuario e email' senha' session =
     (case find (\<lambda>u. email u = email') (usuarios session) of
        None \<Rightarrow> Inr None
      | Some usr \<Rightarrow>
          (case bcrypt_verify e senha' (senha usr) of
             Inl x \<Rightarrow> Inl x
           | Inr ok \<Rightarrow> if \<not> ok then Inr None else Inr (Some usr)))"

text \<open>
  \<^verbatim>\<open>pegar_usuario_logado_opcional(session, token)\<close>: \<^verbatim>\<open>int(id_usuario)\<close> and the query,
  which binds the integer, stand after the \<^verbatim>\<open>try\<close> block.
\<close>

definition pegar_usuario_logado_opcional ::
  "env \<Rightarrow> 'f Session \<Rightarrow> string option \<Rightarrow> exn + Usuario option" where
  "pegar_usuario_logado_opcional e session token =
     (case token of
        None \<Rightarrow> Inr None
      | Some t \<Rightarrow>
          if t = [] then Inr None
          else
            (case jwt_decode e t of
               None \<Rightarrow> Inr None
             | Some pl \<Rightarrow>
                 (case sub pl of
                    None \<Rightarrow> Inr None
                  | Some id_usuario \<Rightarrow>
                      (case py_int (int_outros e) id_usuario of
                         None \<Rightarrow> Inl ValueError
                       | Some n \<Rightarrow>
                           if \<not> sqlite_int n then Inl OverflowError
                           else Inr (find (\<lambda>u. usuario_id u = n) (usuarios session))))))"




definition msg_credenciais :: string where
  "msg_credenciais =
     ''Usu'' @ [CHR 0xC3, CHR 0xA1] @ ''rio ou senha inv'' @ [CHR 0xC3, CHR 0xA1] @ ''lidos''"


text \<open>
  \<^verbatim>\<open>login(login_schema, session)\<close>: the access token lasts
  \<^verbatim>\<open>ACCESS_TOKEN_EXPIRE_MINUTES\<close>, the refresh token seven days.
\<close>

definition login :: "env \<Rightarrow> LoginSchema \<Rightarrow> 'f Session \<Rightarrow> exn + TokenSchema" where
  "login e login_schema session =
     (case autenticar_usuario e (login_email login_schema) (login_senha login_schema) session of
        Inl x \<Rightarrow> Inl x
      | Inr None \<Rightarrow>
          Inl (HTTPException 401 msg_credenciais [(''WWW-Authenticate'', ''Bearer'')])
      | Inr (Some usr) \<Rightarrow>
          Inr \<lparr>access_token =
                 criar_token e (usuario_id usr) (60 * ACCESS_TOKEN_EXPIRE_MINUTES e),
               refresh_token = Some (criar_token e (usuario_id usr) (7 * 86400)),
               token_type = ''Bearer''\<rparr>)"

section \<open>The specification's access rule, and the invariants of the tables\<close>

text \<open>
  The rule as the specification words it (section 4.2): true iff
  \<^verbatim>\<open>identity.admin == true OR identity.id == resourceOwnerAccountId\<close>.
\<close>

definition CanAccess :: "Usuario \<Rightarrow> int \<Rightarrow> bool" where
  "CanAccess identity resourceOwnerAccountId \<longleftrightarrow>
     admin identity \<or> usuario_id identity = resourceOwnerAccountId"

text \<open>
  What the primary keys and the foreign key of \<^verbatim>\<open>itens_pedido\<close> promise: ids are
  unique in each table, and every item's order is a row of \<^verbatim>\<open>pedidos\<close>.
\<close>

definition integridade :: "'f Session \<Rightarrow> bool" where
  "integridade session \<longleftrightarrow>
     distinct (map pedido_id (pedidos session)) \<and>
     distinct (map item_id (itens_pedido session)) \<and>
     list_all (\<lambda>item. pedido item \<in> set (map pedido_id (pedidos session)))
       (itens_pedido session)"

text \<open>The price invariant of the specification's data model, for every stored order.\<close>

definition preco_em_dia :: "'f::times float_ops \<Rightarrow> 'f Session \<Rightarrow> bool" where
  "preco_em_dia py session \<longleftrightarrow>
     list_all (\<lambda>ped. preco ped =
         py_sum py
           (map (\<lambda>item. preco_unitario item * to_float py (quantidade item)) (itens session ped)))
       (pedidos session)"

section \<open>Data of the closed examples\<close>

text \<open>
  Prices in the examples are integers, converted by the identity and summed exactly.
  The example environment has a transparent token format and a transparent hash; like
  passlib's bcrypt handler, its hash and its verification refuse a password that
  contains a NUL byte.
\<close>

definition preco_inteiro :: "int float_ops" where
  "preco_inteiro = \<lparr>to_float = (\<lambda>i. i), py_sum = sum_list\<rparr>"

definition env_exemplo :: env where
  "env_exemplo =
     \<lparr>jwt_encode = (\<lambda>pl. case sub pl of None \<Rightarrow> ''jwt:'' | Some s \<Rightarrow> ''jwt:'' @ s),
      jwt_decode = (\<lambda>t. if take 4 t = ''jwt:'' then Some \<lparr>sub = Some (drop 4 t), exp = None\<rparr>
                         else None),
      bcrypt_hash = (\<lambda>p. if CHR 0x00 \<in> set p then Inl ''NullPasswordError''
                          else Inr (''$2b$'' @ p)),
      bcrypt_verify = (\<lambda>p h. if CHR 0x00 \<in> set p then Inl ValueError
                              else Inr (h = ''$2b$'' @ p)),
      int_outros = (\<lambda>s. None),
      now = 0,
      ACCESS_TOKEN_EXPIRE_MINUTES = 30\<rparr>"

definition ana :: Usuario where
  "ana = \<lparr>usuario_id = 1, nome = ''Ana'', email = ''ana@x.com'', senha = ''$2b$pw1'',
          ativo = True, admin = False\<rparr>"

definition bia :: Usuario where
  "bia = \<lparr>usuario_id = 2, nome = ''Bia'', email = ''bia@x.com'', senha = ''$2b$pw2'',
          ativo = False, admin = False\<rparr>"

definition adm :: Usuario where
  "adm = \<lparr>usuario_id = 3, nome = ''Adm'', email = ''adm@x.com'', senha = ''$2b$pw3'',
          ativo = True, admin = True\<rparr>"

definition burger :: "int ItemPedido" where
  "burger = \<lparr>quantidade = 2, sabor = ''Burger'', tamanho = ''Large'', preco_unitario = 10,
             item_id = 1, pedido = 1\<rparr>"

definition soda :: "int ItemPedido" where
  "soda = \<lparr>quantidade = 1, sabor = ''Soda'', tamanho = ''Can'', preco_unitario = 5,
           item_id = 2, pedido = 1\<rparr>"

definition suco :: "int ItemPedido" where
  "suco = \<lparr>quantidade = 3, sabor = ''Suco'', tamanho = ''Copo'', preco_unitario = 4,
           item_id = 3, pedido = 4\<rparr>"

definition agua :: "int ItemPedidoSchema" where
  "agua = \<lparr>quantidade = 2, sabor = ''Agua'', tamanho = ''Garrafa'', preco_unitario = 3\<rparr>"

definition sessao_exemplo :: "int Session" where
  "sessao_exemplo =
     \<lparr>usuarios = [ana, bia, adm],
      pedidos =
        [\<lparr>pedido_id = 1, status = ''PENDENTE'', usuario = 1, preco = 25\<rparr>,
         \<lparr>pedido_id = 2, status = ''EM_PREPARO'', usuario = 2, preco = 0\<rparr>,
         \<lparr>pedido_id = 3, status = ''FINALIZADO'', usuario = 1, preco = 0\<rparr>,
         \<lparr>pedido_id = 4, status = ''CANCELADO'', usuario = 2, preco = 12\<rparr>],
      itens_pedido = [burger, soda, suco]\<rparr>"



section \<open>The tables with other active flags\<close>

text \<open>
  The same tables with the column \<^verbatim>\<open>ativo\<close> of every account replaced by \<open>f\<close> of the
  account: what a function returns on them tells whether it reads the column.
\<close>

definition com_ativo :: "(Usuario \<Rightarrow> bool) \<Rightarrow> 'f Session \<Rightarrow> 'f Session" where
  "com_ativo f session =
     session\<lparr>usuarios := map (\<lambda>u. u\<lparr>ativo := f u\<rparr>) (usuarios session)\<rparr>"

section \<open>Lookups in the tables\<close>

lemmas exemplo_defs =
  sessao_exemplo_def ana_def bia_def adm_def burger_def soda_def suco_def agua_def
  preco_inteiro_def env_exemplo_def sqlite_int_def

lemmas rota_defs =
  rota_visualizar_pedido_def rota_cancelar_pedido_def rota_finalizar_pedido_def
  rota_adicionar_item_pedido_def rota_remover_item_pedido_def

lemma find_pedido_id:
  "find (\<lambda>p. pedido_id p = i) ps = Some ped \<Longrightarrow> pedido_id ped = i"
  by (induction ps) (auto split: if_splits)

lemma find_map_status:
  "find (\<lambda>p. pedido_id p = i) (map (\<lambda>p. if pedido_id p = j then p\<lparr>status := st\<rparr> else p) ps)
   = map_option (\<lambda>p. if pedido_id p = j then p\<lparr>status := st\<rparr> else p)
       (find (\<lambda>p. pedido_id p = i) ps)"
  by (induction ps) auto

lemma find_map_preco:
  "find (\<lambda>p. pedido_id p = i) (map (\<lambda>p. if pedido_id p = j then p\<lparr>preco := v\<rparr> else p) ps)
   = map_option (\<lambda>p. if pedido_id p = j then p\<lparr>preco := v\<rparr> else p)
       (find (\<lambda>p. pedido_id p = i) ps)"
  by (induction ps) auto

lemma obter_pedido_autorizado_Inr:
  "obter_pedido_autorizado i session usr = Inr ped \<Longrightarrow>
   find (\<lambda>p. pedido_id p = i) (pedidos session) = Some ped"
  by (auto simp: obter_pedido_autorizado_def split: option.splits if_splits)

lemma msg_cancelar_contem: "\<exists>pre post. msg_cancelar st = pre @ st @ post"
  unfolding msg_cancelar_def by (metis append.assoc)

section \<open>The status transitions\<close>

text \<open>
  C2. For the order that the authorisation returned, the cancel route succeeds exactly
  when the status is \<^verbatim>\<open>PENDENTE\<close> or \<^verbatim>\<open>EM_PREPARO\<close>, and then the stored status
  is \<^verbatim>\<open>CANCELADO\<close>. For any other status it raises HTTP 400, the tables are as
  before, and the detail contains the current status.
\<close>

theorem cancelar_pedido_transicao:
  assumes "obter_pedido_autorizado id_pedido session usr = Inr ped"
  shows "(status ped \<in> {''PENDENTE'', ''EM_PREPARO''} \<longrightarrow>
            (\<exists>session'. rota_cancelar_pedido id_pedido usr session
                 = (Inr (ped\<lparr>status := ''CANCELADO''\<rparr>), session')
               \<and> find (\<lambda>p. pedido_id p = id_pedido) (pedidos session')
                 = Some (ped\<lparr>status := ''CANCELADO''\<rparr>)))
       \<and> (status ped \<notin> {''PENDENTE'', ''EM_PREPARO''} \<longrightarrow>
            (\<exists>pre post. rota_cancelar_pedido id_pedido usr session
                 = (Inl (HTTPException 400 (pre @ status ped @ post) []), session)))
       \<and> ((\<exists>r session'. rota_cancelar_pedido id_pedido usr session = (Inr r, session'))
            \<longleftrightarrow> status ped \<in> {''PENDENTE'', ''EM_PREPARO''})"
proof -
  from assms have f: "find (\<lambda>p. pedido_id p = id_pedido) (pedidos session) = Some ped"
    by (rule obter_pedido_autorizado_Inr)
  then have i: "pedido_id ped = id_pedido" by (rule find_pedido_id)
  have ok: "rota_cancelar_pedido id_pedido usr session
              = (Inr (ped\<lparr>status := ''CANCELADO''\<rparr>), commit_status id_pedido ''CANCELADO'' session)"
    if "status ped \<in> {''PENDENTE'', ''EM_PREPARO''}"
    using that assms i by (auto simp: rota_cancelar_pedido_def cancelar_pedido_def)
  have stored: "find (\<lambda>p. pedido_id p = id_pedido)
                  (pedidos (commit_status id_pedido ''CANCELADO'' session))
                = Some (ped\<lparr>status := ''CANCELADO''\<rparr>)"
    using f i by (simp add: commit_status_def find_map_status)
  have ko: "rota_cancelar_pedido id_pedido usr session
              = (Inl (HTTPException 400 (msg_cancelar (status ped)) []), session)"
    if "status ped \<notin> {''PENDENTE'', ''EM_PREPARO''}"
    using that assms by (simp add: rota_cancelar_pedido_def cancelar_pedido_def)
  show ?thesis
  proof (cases "status ped \<in> {''PENDENTE'', ''EM_PREPARO''}")
    case True
    with ok stored show ?thesis by auto
  next
    case False
    obtain pre post where "msg_cancelar (status ped) = pre @ status ped @ post"
      using msg_cancelar_contem by blast
    with False ko show ?thesis by auto
  qed
qed

theorem cancelar_pedido_transicao_witness:
  "obter_pedido_autorizado 1 sessao_exemplo ana
     = Inr \<lparr>pedido_id = 1, status = ''PENDENTE'', usuario = 1, preco = 25\<rparr>
   \<and> (\<exists>session'. rota_cancelar_pedido 1 ana sessao_exemplo
          = (Inr \<lparr>pedido_id = 1, status = ''CANCELADO'', usuario = 1, preco = 25\<rparr>, session')
        \<and> find (\<lambda>p. pedido_id p = 1) (pedidos session')
          = Some \<lparr>pedido_id = 1, status = ''CANCELADO'', usuario = 1, preco = 25\<rparr>)
   \<and> obter_pedido_autorizado 3 sessao_exemplo ana
     = Inr \<lparr>pedido_id = 3, status = ''FINALIZADO'', usuario = 1, preco = 0\<rparr>
   \<and> (\<exists>pre post. rota_cancelar_pedido 3 ana sessao_exemplo
          = (Inl (HTTPException 400 (pre @ ''FINALIZADO'' @ post) []), sessao_exemplo))"
proof -
  have h1: "obter_pedido_autorizado 1 sessao_exemplo ana
     = Inr \<lparr>pedido_id = 1, status = ''PENDENTE'', usuario = 1, preco = 25\<rparr>"
    by (simp add: obter_pedido_autorizado_def exemplo_defs)
  have h3: "obter_pedido_autorizado 3 sessao_exemplo ana
     = Inr \<lparr>pedido_id = 3, status = ''FINALIZADO'', usuario = 1, preco = 0\<rparr>"
    by (simp add: obter_pedido_autorizado_def exemplo_defs)
  from cancelar_pedido_transicao [OF h1] cancelar_pedido_transicao [OF h3] h1 h3
  show ?thesis by simp
qed

text \<open>
  C3. For the order that the authorisation returned, the finalize route succeeds
  exactly when the status is \<^verbatim>\<open>EM_PREPARO\<close>, and then the stored status is
  \<^verbatim>\<open>FINALIZADO\<close>. For any other status it raises HTTP 400 and the tables are as
  before.
\<close>

theorem finalizar_pedido_transicao:
  assumes "obter_pedido_autorizado id_pedido session usr = Inr ped"
  shows "(status ped = ''EM_PREPARO'' \<longrightarrow>
            (\<exists>session'. rota_finalizar_pedido id_pedido usr session
                 = (Inr (ped\<lparr>status := ''FINALIZADO''\<rparr>), session')
               \<and> find (\<lambda>p. pedido_id p = id_pedido) (pedidos session')
                 = Some (ped\<lparr>status := ''FINALIZADO''\<rparr>)))
       \<and> (status ped \<noteq> ''EM_PREPARO'' \<longrightarrow>
            rota_finalizar_pedido id_pedido usr session
              = (Inl (HTTPException 400 msg_finalizar []), session))
       \<and> ((\<exists>r session'. rota_finalizar_pedido id_pedido usr session = (Inr r, session'))
            \<longleftrightarrow> status ped = ''EM_PREPARO'')"
proof -
  from assms have f: "find (\<lambda>p. pedido_id p = id_pedido) (pedidos session) = Some ped"
    by (rule obter_pedido_autorizado_Inr)
  then have i: "pedido_id ped = id_pedido" by (rule find_pedido_id)
  have stored: "find (\<lambda>p. pedido_id p = id_pedido)
                  (pedidos (commit_status id_pedido ''FINALIZADO'' session))
                = Some (ped\<lparr>status := ''FINALIZADO''\<rparr>)"
    using f i by (simp add: commit_status_def find_map_status)
  show ?thesis
  proof (cases "status ped = ''EM_PREPARO''")
    case True
    then have "rota_finalizar_pedido id_pedido usr session
              = (Inr (ped\<lparr>status := ''FINALIZADO''\<rparr>), commit_status id_pedido ''FINALIZADO'' session)"
      using assms i by (simp add: rota_finalizar_pedido_def finalizar_pedido_def)
    with True stored show ?thesis by auto
  next
    case False
    then have "rota_finalizar_pedido id_pedido usr session
              = (Inl (HTTPException 400 msg_finalizar []), session)"
      using assms by (simp add: rota_finalizar_pedido_def finalizar_pedido_def)
    with False show ?thesis by auto
  qed
qed

theorem finalizar_pedido_transicao_witness:
  "obter_pedido_autorizado 2 sessao_exemplo bia
     = Inr \<lparr>pedido_id = 2, status = ''EM_PREPARO'', usuario = 2, preco = 0\<rparr>
   \<and> (\<exists>session'. rota_finalizar_pedido 2 bia sessao_exemplo
          = (Inr \<lparr>pedido_id = 2, status = ''FINALIZADO'', usuario = 2, preco = 0\<rparr>, session')
        \<and> find (\<lambda>p. pedido_id p = 2) (pedidos session')
          = Some \<lparr>pedido_id = 2, status = ''FINALIZADO'', usuario = 2, preco = 0\<rparr>)
   \<and> obter_pedido_autorizado 1 sessao_exemplo ana
     = Inr \<lparr>pedido_id = 1, status = ''PENDENTE'', usuario = 1, preco = 25\<rparr>
   \<and> rota_finalizar_pedido 1 ana sessao_exemplo
     = (Inl (HTTPException 400 msg_finalizar []), sessao_exemplo)"
proof -
  have h2: "obter_pedido_autorizado 2 sessao_exemplo bia
     = Inr \<lparr>pedido_id = 2, status = ''EM_PREPARO'', usuario = 2, preco = 0\<rparr>"
    by (simp add: obter_pedido_autorizado_def exemplo_defs)
  have h1: "obter_pedido_autorizado 1 sessao_exemplo ana
     = Inr \<lparr>pedido_id = 1, status = ''PENDENTE'', usuario = 1, preco = 25\<rparr>"
    by (simp add: obter_pedido_autorizado_def exemplo_defs)
  from finalizar_pedido_transicao [OF h2] finalizar_pedido_transicao [OF h1] h1 h2
  show ?thesis by simp
qed


section \<open>Authorisation\<close>

lemma find_item_mem:
  "find (\<lambda>i. item_id i = k) xs = Some item \<Longrightarrow> item \<in> set xs \<and> item_id item = k"
  by (induction xs) (auto split: if_splits)

lemma integridade_pedido_do_item:
  assumes "integridade session"
    and "find (\<lambda>i. item_id i = k) (itens_pedido session) = Some item"
  shows "\<exists>ped. find (\<lambda>p. pedido_id p = pedido item) (pedidos session) = Some ped"
proof -
  from assms(2) have "item \<in> set (itens_pedido session)"
    by (rule find_item_mem [THEN conjunct1])
  with assms(1) have "pedido item \<in> set (map pedido_id (pedidos session))"
    by (simp add: integridade_def list_all_iff)
  then have "find (\<lambda>p. pedido_id p = pedido item) (pedidos session) \<noteq> None"
    by (auto simp: find_None_iff)
  then show ?thesis by blast
qed

lemma obter_pedido_autorizado_CanAccess:
  "sqlite_int id_pedido \<Longrightarrow>
   obter_pedido_autorizado id_pedido session usr =
     (case find (\<lambda>p. pedido_id p = id_pedido) (pedidos session) of
        None \<Rightarrow> Inl (HTTPException 404 msg_pedido_nao_encontrado [])
      | Some ped \<Rightarrow>
          if CanAccess usr (usuario ped) then Inr ped
          else Inl (HTTPException 403 msg_sem_autorizacao_acao []))"
  by (simp add: obter_pedido_autorizado_def CanAccess_def split: option.splits)

text \<open>
  For ids that SQLite can bind, the five routes that target an order or an item
  answer in the order of the specification: HTTP 404 when the target is not in its
  table, whoever asks; HTTP 403 when it is there and the specification's
  \<open>CanAccess\<close> is false for the owner of the order (for an item, the owner of the
  item's order); otherwise the route is its handler applied to the target.
\<close>

lemma autorizacao_de_ids_em_faixa:
  fixes session :: "'f::times Session"
  assumes "integridade session" and "sqlite_int id_pedido" and "sqlite_int id_item_pedido"
  shows
    "(find (\<lambda>p. pedido_id p = id_pedido) (pedidos session) = None \<longrightarrow>
        rota_visualizar_pedido id_pedido usr session
          = (Inl (HTTPException 404 msg_pedido_nao_encontrado []), session) \<and>
        rota_cancelar_pedido id_pedido usr session
          = (Inl (HTTPException 404 msg_pedido_nao_encontrado []), session) \<and>
        rota_finalizar_pedido id_pedido usr session
          = (Inl (HTTPException 404 msg_pedido_nao_encontrado []), session) \<and>
        rota_adicionar_item_pedido py id_pedido item_schema usr session
          = (Inl (HTTPException 404 msg_pedido_nao_encontrado []), session))
   \<and> (\<forall>ped. find (\<lambda>p. pedido_id p = id_pedido) (pedidos session) = Some ped
          \<and> \<not> CanAccess usr (usuario ped) \<longrightarrow>
        rota_visualizar_pedido id_pedido usr session
          = (Inl (HTTPException 403 msg_sem_autorizacao_acao []), session) \<and>
        rota_cancelar_pedido id_pedido usr session
          = (Inl (HTTPException 403 msg_sem_autorizacao_acao []), session) \<and>
        rota_finalizar_pedido id_pedido usr session
          = (Inl (HTTPException 403 msg_sem_autorizacao_acao []), session) \<and>
        rota_adicionar_item_pedido py id_pedido item_schema usr session
          = (Inl (HTTPException 403 msg_sem_autorizacao_acao []), session))
   \<and> (\<forall>ped. find (\<lambda>p. pedido_id p = id_pedido) (pedidos session) = Some ped
          \<and> CanAccess usr (usuario ped) \<longrightarrow>
        rota_visualizar_pedido id_pedido usr session = (Inr ped, session) \<and>
        rota_cancelar_pedido id_pedido usr session = cancelar_pedido ped session \<and>
        rota_finalizar_pedido id_pedido usr session = finalizar_pedido ped session \<and>
        rota_adicionar_item_pedido py id_pedido item_schema usr session
          = adicionar_item_pedido py item_schema ped session)
   \<and> (find (\<lambda>i. item_id i = id_item_pedido) (itens_pedido session) = None \<longrightarrow>
        rota_remover_item_pedido py id_item_pedido usr session
          = (Inl (HTTPException 404 msg_item_nao_encontrado []), session))
   \<and> (\<forall>item. find (\<lambda>i. item_id i = id_item_pedido) (itens_pedido session) = Some item \<longrightarrow>
        (\<exists>ped. find (\<lambda>p. pedido_id p = pedido item) (pedidos session) = Some ped \<and>
           rota_remover_item_pedido py id_item_pedido usr session
             = (if CanAccess usr (usuario ped)
                then remover_item_pedido py item session
                else (Inl (HTTPException 403 msg_sem_autorizacao_acao []), session))))"
    (is "?ausente \<and> ?negado \<and> ?permitido \<and> ?item_ausente \<and> ?item")
proof -
  note p = obter_pedido_autorizado_CanAccess [OF assms(2)]
  have a: ?ausente
    by (simp add: rota_defs p)
  have b: ?negado
    by (simp add: rota_defs p)
  have c: ?permitido
    by (simp add: rota_defs p visualizar_pedido_def)
  have d: ?item_ausente
    using assms(3) by (simp add: rota_defs obter_item_pedido_autorizado_def)
  have e: ?item
  proof (intro allI impI)
    fix item
    assume it: "find (\<lambda>i. item_id i = id_item_pedido) (itens_pedido session) = Some item"
    with assms(1) obtain ped
      where ped: "find (\<lambda>p. pedido_id p = pedido item) (pedidos session) = Some ped"
      using integridade_pedido_do_item by blast
    have "rota_remover_item_pedido py id_item_pedido usr session
             = (if CanAccess usr (usuario ped)
                then remover_item_pedido py item session
                else (Inl (HTTPException 403 msg_sem_autorizacao_acao []), session))"
      using it ped assms(3)
      by (simp add: rota_remover_item_pedido_def obter_item_pedido_autorizado_def CanAccess_def)
    with ped show "\<exists>ped. find (\<lambda>p. pedido_id p = pedido item) (pedidos session) = Some ped \<and>
           rota_remover_item_pedido py id_item_pedido usr session
             = (if CanAccess usr (usuario ped)
                then remover_item_pedido py item session
                else (Inl (HTTPException 403 msg_sem_autorizacao_acao []), session))"
      by (intro exI conjI)
  qed
  show ?thesis by (intro conjI a b c d e)
qed


text \<open>
  C4. The existence check does not come first for every id: a path parameter is an
  unbounded integer, and for one outside 64 signed bits the query itself raises
  \<^verbatim>\<open>OverflowError\<close>. Each of the five routes then answers with that exception
  (HTTP 500) and not with the 404 that the claim, and the routes' own descriptions,
  give for a target that does not exist.
\<close>

theorem id_fora_de_64_bits_OverflowError:
  fixes session :: "'f::times Session"
  shows
    "(\<not> sqlite_int id_pedido \<longrightarrow>
        rota_visualizar_pedido id_pedido usr session = (Inl OverflowError, session) \<and>
        rota_cancelar_pedido id_pedido usr session = (Inl OverflowError, session) \<and>
        rota_finalizar_pedido id_pedido usr session = (Inl OverflowError, session) \<and>
        rota_adicionar_item_pedido py id_pedido item_schema usr session
          = (Inl OverflowError, session))
     \<and> (\<not> sqlite_int id_item_pedido \<longrightarrow>
        rota_remover_item_pedido py id_item_pedido usr session = (Inl OverflowError, session))"
  by (simp add: rota_defs obter_pedido_autorizado_def obter_item_pedido_autorizado_def)

theorem id_fora_de_64_bits_OverflowError_witness:
  "\<not> sqlite_int 9223372036854775808
   \<and> find (\<lambda>p. pedido_id p = 9223372036854775808) (pedidos sessao_exemplo) = None
   \<and> find (\<lambda>i. item_id i = 9223372036854775808) (itens_pedido sessao_exemplo) = None
   \<and> rota_visualizar_pedido 9223372036854775808 ana sessao_exemplo
       = (Inl OverflowError, sessao_exemplo)
   \<and> rota_cancelar_pedido 9223372036854775808 adm sessao_exemplo
       = (Inl OverflowError, sessao_exemplo)
   \<and> rota_remover_item_pedido preco_inteiro 9223372036854775808 adm sessao_exemplo
       = (Inl OverflowError, sessao_exemplo)"
proof -
  have n: "\<not> sqlite_int 9223372036854775808" by (simp add: sqlite_int_def)
  have f: "find (\<lambda>p. pedido_id p = 9223372036854775808) (pedidos sessao_exemplo) = None"
    by (simp add: exemplo_defs)
  have g: "find (\<lambda>i. item_id i = 9223372036854775808) (itens_pedido sessao_exemplo) = None"
    by (simp add: exemplo_defs)
  note t = id_fora_de_64_bits_OverflowError
             [where session = sessao_exemplo and py = preco_inteiro
                and id_pedido = 9223372036854775808
                and id_item_pedido = 9223372036854775808]
  from t [where usr = ana] n
  have a: "rota_visualizar_pedido 9223372036854775808 ana sessao_exemplo
       = (Inl OverflowError, sessao_exemplo)"
    by simp
  from t [where usr = adm] n
  have b: "rota_cancelar_pedido 9223372036854775808 adm sessao_exemplo
       = (Inl OverflowError, sessao_exemplo)"
    and c: "rota_remover_item_pedido preco_inteiro 9223372036854775808 adm sessao_exemplo
       = (Inl OverflowError, sessao_exemplo)"
    by simp_all
  show ?thesis by (intro conjI n f g a b c)
qed

section \<open>Listing\<close>

text \<open>
  C8. A user who is not an administrator gets HTTP 403 from the route that lists all
  orders. The route that lists the user's own orders has no failing branch, for any
  user, and returns the stored orders whose owner is the user's id: each of them,
  in table order, and no other.
\<close>

theorem listar_pedidos:
  "(\<not> admin usr \<longrightarrow>
      listar_todos_pedidos session usr = Inl (HTTPException 403 msg_sem_autorizacao_rota []))
   \<and> (\<exists>ps. listar_meus_pedidos usr session = Inr ps
         \<and> ps = filter (\<lambda>p. usuario p = usuario_id usr) (pedidos session)
         \<and> (\<forall>p. p \<in> set ps \<longleftrightarrow> p \<in> set (pedidos session) \<and> usuario p = usuario_id usr))"
  by (auto simp: listar_todos_pedidos_def listar_meus_pedidos_def)

theorem listar_pedidos_witness:
  "\<not> admin ana
   \<and> listar_todos_pedidos sessao_exemplo ana = Inl (HTTPException 403 msg_sem_autorizacao_rota [])
   \<and> listar_meus_pedidos ana sessao_exemplo
       = Inr [\<lparr>pedido_id = 1, status = ''PENDENTE'', usuario = 1, preco = 25\<rparr>,
              \<lparr>pedido_id = 3, status = ''FINALIZADO'', usuario = 1, preco = 0\<rparr>]"
proof -
  have n: "\<not> admin ana" by (simp add: ana_def)
  from listar_pedidos [of ana sessao_exemplo] n
  have a: "listar_todos_pedidos sessao_exemplo ana = Inl (HTTPException 403 msg_sem_autorizacao_rota [])"
    by simp
  from listar_pedidos [of ana sessao_exemplo]
  have "listar_meus_pedidos ana sessao_exemplo
          = Inr (filter (\<lambda>p. usuario p = usuario_id ana) (pedidos sessao_exemplo))"
    by blast
  then have b: "listar_meus_pedidos ana sessao_exemplo
       = Inr [\<lparr>pedido_id = 1, status = ''PENDENTE'', usuario = 1, preco = 25\<rparr>,
              \<lparr>pedido_id = 3, status = ''FINALIZADO'', usuario = 1, preco = 0\<rparr>]"
    by (simp add: exemplo_defs)
  show ?thesis by (intro conjI n a b)
qed


section \<open>Item mutations and the price\<close>

lemma itens_commit_preco [simp]: "itens (commit_preco i v session) ped = itens session ped"
  by (simp add: itens_def commit_preco_def)

lemma preco_calcular_preco:
  "preco (calcular_preco py session ped)
     = py_sum py
         (map (\<lambda>item. preco_unitario item * to_float py (quantidade item)) (itens session ped))"
  by (simp add: calcular_preco_def)

lemma itens_calcular_preco [simp]:
  "itens session' (calcular_preco py session ped) = itens session' ped"
  by (simp add: itens_def calcular_preco_def)

lemma find_commit_preco:
  assumes "find (\<lambda>p. pedido_id p = i) (pedidos session) = Some ped"
  shows "find (\<lambda>p. pedido_id p = i) (pedidos (commit_preco i v session)) = Some (ped\<lparr>preco := v\<rparr>)"
  using assms find_pedido_id [OF assms] by (simp add: commit_preco_def find_map_preco)

lemma calcular_preco_update: "calcular_preco py session ped = ped\<lparr>preco := preco (calcular_preco py session ped)\<rparr>"
  by (simp add: calcular_preco_def)

text \<open>What a committed add writes.\<close>

lemma adicionar_item_pedido_Inr:
  "adicionar_item_pedido py item_schema ped session = (Inr ped', session') \<Longrightarrow>
   sqlite_int (quantidade item_schema)"
  by (auto simp: adicionar_item_pedido_def split: if_splits)

lemma adicionar_item_pedido_commit:
  assumes "find (\<lambda>p. pedido_id p = pedido_id ped) (pedidos session) = Some ped"
    and "adicionar_item_pedido py item_schema ped session = (r, session')"
    and "sqlite_int (quantidade item_schema)"
  shows "\<exists>ped' item. r = Inr ped'
           \<and> find (\<lambda>p. pedido_id p = pedido_id ped) (pedidos session') = Some ped'
           \<and> pedido_id ped' = pedido_id ped \<and> status ped' = status ped \<and> usuario ped' = usuario ped
           \<and> itens session' ped' = itens session ped @ [item]
           \<and> quantidade item = quantidade item_schema
           \<and> preco_unitario item = preco_unitario item_schema
           \<and> preco ped' = py_sum py
                 (map (\<lambda>item. preco_unitario item * to_float py (quantidade item)) (itens session' ped'))"
proof -
  define item where "item = \<lparr>quantidade = quantidade item_schema, sabor = sabor item_schema,
            tamanho = tamanho item_schema, preco_unitario = preco_unitario item_schema,
            item_id = novo_id (map item_id (itens_pedido session)),
            pedido = pedido_id ped\<rparr>"
  define flushed where "flushed = session\<lparr>itens_pedido := itens_pedido session @ [item]\<rparr>"
  define ped' where "ped' = calcular_preco py flushed ped"
  from assms(2,3) have r: "r = Inr ped'"
    and s': "session' = commit_preco (pedido_id ped) (preco ped') flushed"
    by (simp_all add: adicionar_item_pedido_def Let_def ped'_def flushed_def item_def)
  have f: "find (\<lambda>p. pedido_id p = pedido_id ped) (pedidos flushed) = Some ped"
    using assms(1) by (simp add: flushed_def)
  have stored: "find (\<lambda>p. pedido_id p = pedido_id ped) (pedidos session') = Some ped'"
    unfolding s' using find_commit_preco [OF f, of "preco ped'"]
    by (simp add: ped'_def calcular_preco_def)
  have fields: "pedido_id ped' = pedido_id ped" "status ped' = status ped" "usuario ped' = usuario ped"
    by (simp_all add: ped'_def calcular_preco_def)
  have its: "itens session' ped' = itens session ped @ [item]"
    by (simp add: s' ped'_def) (simp add: itens_def flushed_def item_def)
  have its': "itens session' ped' = itens flushed ped"
    by (simp add: s' ped'_def)
  have pr: "preco ped' = py_sum py
                 (map (\<lambda>item. preco_unitario item * to_float py (quantidade item)) (itens session' ped'))"
    unfolding its' by (simp add: ped'_def preco_calcular_preco)
  have q: "quantidade item = quantidade item_schema" "preco_unitario item = preco_unitario item_schema"
    by (simp_all add: item_def)
  from r stored fields its q pr show ?thesis by blast
qed

lemma remover_item_pedido_commit:
  assumes "remover_item_pedido py item session = (Inr ped', session')"
  shows "\<exists>ped. find (\<lambda>p. pedido_id p = pedido item) (pedidos session) = Some ped
           \<and> find (\<lambda>p. pedido_id p = pedido item) (pedidos session') = Some ped'
           \<and> pedido_id ped' = pedido item \<and> status ped' = status ped \<and> usuario ped' = usuario ped
           \<and> itens session' ped' = filter (\<lambda>i. item_id i \<noteq> item_id item) (itens session ped)
           \<and> preco ped' = py_sum py
                 (map (\<lambda>item. preco_unitario item * to_float py (quantidade item)) (itens session' ped'))"
proof -
  from assms obtain ped where f: "find (\<lambda>p. pedido_id p = pedido item) (pedidos session) = Some ped"
    by (auto simp: remover_item_pedido_def split: option.splits)
  define flushed where "flushed = session\<lparr>itens_pedido :=
                 filter (\<lambda>i. item_id i \<noteq> item_id item) (itens_pedido session)\<rparr>"
  have i: "pedido_id ped = pedido item" using f by (rule find_pedido_id)
  from assms f have r: "ped' = calcular_preco py flushed ped"
    and s': "session' = commit_preco (pedido_id ped) (preco ped') flushed"
    by (auto simp: remover_item_pedido_def Let_def flushed_def)
  have ff: "find (\<lambda>p. pedido_id p = pedido item) (pedidos flushed) = Some ped"
    using f by (simp add: flushed_def)
  have stored: "find (\<lambda>p. pedido_id p = pedido item) (pedidos session') = Some ped'"
    unfolding s' i using find_commit_preco [OF ff, of "preco ped'"]
    by (simp add: r calcular_preco_def)
  have fields: "pedido_id ped' = pedido item" "status ped' = status ped" "usuario ped' = usuario ped"
    using i by (simp_all add: r calcular_preco_def)
  have its': "itens session' ped' = itens flushed ped"
    by (simp add: s' r)
  have its: "itens session' ped' = filter (\<lambda>i. item_id i \<noteq> item_id item) (itens session ped)"
    unfolding its' by (auto simp: itens_def flushed_def intro: filter_cong)
  have pr: "preco ped' = py_sum py
                 (map (\<lambda>item. preco_unitario item * to_float py (quantidade item)) (itens session' ped'))"
    unfolding its' by (simp add: r preco_calcular_preco)
  from f stored fields its pr show ?thesis by blast
qed


section \<open>The invariants are kept\<close>

lemma le_fold_max: "(a::int) \<le> fold max xs a"
proof (induction xs arbitrary: a)
  case Nil
  show ?case by simp
next
  case (Cons x xs)
  have "a \<le> max x a" by simp
  also have "max x a \<le> fold max xs (max x a)" by (rule Cons.IH)
  finally show ?case by simp
qed

lemma mem_le_fold_max: "x \<in> set xs \<Longrightarrow> (x::int) \<le> fold max xs a"
proof (induction xs arbitrary: a)
  case Nil
  then show ?case by simp
next
  case (Cons y ys)
  show ?case
  proof (cases "x = y")
    case True
    have "x \<le> max y a" using True by simp
    also have "max y a \<le> fold max ys (max y a)" by (rule le_fold_max)
    finally show ?thesis by simp
  next
    case False
    with Cons.prems have "x \<in> set ys" by simp
    then show ?thesis using Cons.IH by simp
  qed
qed

lemma novo_id_novo: "novo_id ids \<notin> set ids"
proof
  assume "novo_id ids \<in> set ids"
  then have "novo_id ids \<le> fold max ids 0" by (rule mem_le_fold_max)
  then show False by (simp add: novo_id_def)
qed

lemma novo_id_novo_image: "novo_id (map f xs) \<notin> f ` set xs"
  using novo_id_novo [of "map f xs"] by simp

lemma map_pedido_id_commit_status [simp]:
  "map pedido_id (pedidos (commit_status i st session)) = map pedido_id (pedidos session)"
  by (simp add: commit_status_def comp_def if_distrib cong: if_cong)

lemma map_pedido_id_commit_preco [simp]:
  "map pedido_id (pedidos (commit_preco i v session)) = map pedido_id (pedidos session)"
  by (simp add: commit_preco_def comp_def if_distrib cong: if_cong)

lemma image_pedido_id_commit_status [simp]:
  "pedido_id ` set (pedidos (commit_status i st session)) = pedido_id ` set (pedidos session)"
  unfolding set_map [symmetric] by (simp only: map_pedido_id_commit_status)

lemma image_pedido_id_commit_preco [simp]:
  "pedido_id ` set (pedidos (commit_preco i v session)) = pedido_id ` set (pedidos session)"
  unfolding set_map [symmetric] by (simp only: map_pedido_id_commit_preco)

lemma map_status_commit_preco [simp]:
  "map status (pedidos (commit_preco i v session)) = map status (pedidos session)"
  by (simp add: commit_preco_def comp_def if_distrib cong: if_cong)

lemma itens_pedido_commit_status [simp]:
  "itens_pedido (commit_status i st session) = itens_pedido session"
  by (simp add: commit_status_def)

lemma itens_pedido_commit_preco [simp]:
  "itens_pedido (commit_preco i v session) = itens_pedido session"
  by (simp add: commit_preco_def)

lemma integridade_criar_pedido:
  assumes "integridade session"
  shows "integridade (snd (criar_pedido py usr session))"
proof -
  have "novo_id (map pedido_id (pedidos session)) \<notin> pedido_id ` set (pedidos session)"
    by (rule novo_id_novo_image)
  with assms show ?thesis
    by (auto simp: integridade_def criar_pedido_def Let_def list_all_iff)
qed

lemma integridade_cancelar_pedido:
  "integridade session \<Longrightarrow> integridade (snd (cancelar_pedido ped session))"
  by (simp add: integridade_def cancelar_pedido_def)

lemma integridade_finalizar_pedido:
  "integridade session \<Longrightarrow> integridade (snd (finalizar_pedido ped session))"
  by (simp add: integridade_def finalizar_pedido_def)

lemma integridade_adicionar_item_pedido:
  assumes "integridade session"
    and "find (\<lambda>p. pedido_id p = pedido_id ped) (pedidos session) = Some ped"
  shows "integridade (snd (adicionar_item_pedido py item_schema ped session))"
proof -
  from assms(2) have "ped \<in> set (pedidos session)"
    by (auto simp: find_Some_iff)
  then have "pedido_id ped \<in> pedido_id ` set (pedidos session)" by (rule imageI)
  with assms(1) show ?thesis
    by (simp add: integridade_def adicionar_item_pedido_def Let_def novo_id_novo_image)
qed

lemma integridade_remover_item_pedido:
  assumes "integridade session"
  shows "integridade (snd (remover_item_pedido py item session))"
proof (cases "find (\<lambda>p. pedido_id p = pedido item) (pedidos session)")
  case None
  with assms show ?thesis by (simp add: remover_item_pedido_def)
next
  case (Some ped)
  with assms show ?thesis
    by (auto simp: integridade_def remover_item_pedido_def Let_def distinct_map_filter list_all_iff)
qed

lemma preco_em_dia_commit_status:
  "preco_em_dia py session \<Longrightarrow> preco_em_dia py (commit_status i st session)"
  by (auto simp: preco_em_dia_def commit_status_def list_all_iff itens_def)

lemma preco_em_dia_criar_pedido:
  fixes py :: "'f::times float_ops"
  assumes "integridade session" and "preco_em_dia py session"
    and "py_sum py [] = to_float py 0"
  shows "preco_em_dia py (snd (criar_pedido py usr session))"
proof -
  have "filter (\<lambda>item. pedido item = novo_id (map pedido_id (pedidos session)))
          (itens_pedido session) = []"
  proof -
    have "pedido item \<noteq> novo_id (map pedido_id (pedidos session))"
      if "item \<in> set (itens_pedido session)" for item
    proof -
      from that assms(1) have "pedido item \<in> set (map pedido_id (pedidos session))"
        by (simp add: integridade_def list_all_iff)
      then show ?thesis using novo_id_novo by metis
    qed
    then show ?thesis by (simp add: filter_empty_conv)
  qed
  with assms(2,3) show ?thesis
    by (simp add: preco_em_dia_def criar_pedido_def Let_def itens_def)
qed

lemma preco_em_dia_adicionar_item_pedido:
  fixes py :: "'f::times float_ops"
  assumes "preco_em_dia py session"
  shows "preco_em_dia py (snd (adicionar_item_pedido py item_schema ped session))"
  using assms
  by (auto simp: preco_em_dia_def adicionar_item_pedido_def Let_def list_all_iff
      commit_preco_def calcular_preco_def itens_def)

lemma preco_em_dia_remover_item_pedido:
  fixes py :: "'f::times float_ops"
  assumes "integridade session" and "preco_em_dia py session"
    and "item \<in> set (itens_pedido session)"
  shows "preco_em_dia py (snd (remover_item_pedido py item session))"
proof (cases "find (\<lambda>p. pedido_id p = pedido item) (pedidos session)")
  case None
  with assms(2) show ?thesis by (simp add: remover_item_pedido_def)
next
  case (Some ped)
  then have i: "pedido_id ped = pedido item" by (rule find_pedido_id)
  from assms(1) have inj: "inj_on item_id (set (itens_pedido session))"
    by (simp add: integridade_def distinct_map)
  have outro: "filter (\<lambda>x. item_id x \<noteq> item_id item \<and> pedido x = k) (itens_pedido session)
        = filter (\<lambda>i. pedido i = k) (itens_pedido session)" if "k \<noteq> pedido item" for k
  proof (rule filter_cong [OF refl])
    fix x assume "x \<in> set (itens_pedido session)"
    with inj assms(3) have "item_id x = item_id item \<longrightarrow> x = item" by (auto dest: inj_onD)
    with that show "(item_id x \<noteq> item_id item \<and> pedido x = k) = (pedido x = k)" by auto
  qed
  show ?thesis
    using assms(2) Some i
    by (auto simp: preco_em_dia_def remover_item_pedido_def Let_def list_all_iff
        commit_preco_def calcular_preco_def itens_def outro)
qed




lemma obter_item_pedido_autorizado_Inr:
  "obter_item_pedido_autorizado k session usr = Inr item \<Longrightarrow>
   find (\<lambda>i. item_id i = k) (itens_pedido session) = Some item"
  by (auto simp: obter_item_pedido_autorizado_def split: option.splits if_splits)

text \<open>
  C1. When the route that adds an item, or the one that removes an item, returns (so
  its writes are committed), the stored order is the one returned, its items are the
  former ones with the new item appended (or without the removed one), and its price
  is what the builtin \<^verbatim>\<open>sum\<close> gives on the products \<^verbatim>\<open>preco_unitario * quantidade\<close> of
  exactly those items, in table order, whatever the price was before. Moreover, when the tables satisfy \<open>integridade\<close>
  and every stored order has the price of its items, they do so afterwards.
\<close>

theorem preco_apos_mutacao:
  fixes py :: "'f::times float_ops"
  shows
    "(rota_adicionar_item_pedido py id_pedido item_schema usr session = (Inr ped', session') \<longrightarrow>
        find (\<lambda>p. pedido_id p = id_pedido) (pedidos session') = Some ped'
        \<and> (\<exists>ped item. find (\<lambda>p. pedido_id p = id_pedido) (pedidos session) = Some ped
              \<and> itens session' ped' = itens session ped @ [item]
              \<and> quantidade item = quantidade item_schema
              \<and> preco_unitario item = preco_unitario item_schema)
        \<and> preco ped' = py_sum py
              (map (\<lambda>item. preco_unitario item * to_float py (quantidade item)) (itens session' ped'))
        \<and> (integridade session \<and> preco_em_dia py session \<longrightarrow>
              integridade session' \<and> preco_em_dia py session'))
   \<and> (rota_remover_item_pedido py id_item_pedido usr session = (Inr ped', session') \<longrightarrow>
        (\<exists>ped item. find (\<lambda>i. item_id i = id_item_pedido) (itens_pedido session) = Some item
              \<and> find (\<lambda>p. pedido_id p = pedido item) (pedidos session) = Some ped
              \<and> find (\<lambda>p. pedido_id p = pedido item) (pedidos session') = Some ped'
              \<and> itens session' ped'
                  = filter (\<lambda>i. item_id i \<noteq> id_item_pedido) (itens session ped))
        \<and> preco ped' = py_sum py
              (map (\<lambda>item. preco_unitario item * to_float py (quantidade item)) (itens session' ped'))
        \<and> (integridade session \<and> preco_em_dia py session \<longrightarrow>
              integridade session' \<and> preco_em_dia py session'))"
    (is "(?add \<longrightarrow> ?depois_add) \<and> (?rem \<longrightarrow> ?depois_rem)")
proof (rule conjI; rule impI)
  assume r: ?add
  have "\<exists>ped. obter_pedido_autorizado id_pedido session usr = Inr ped
          \<and> adicionar_item_pedido py item_schema ped session = (Inr ped', session')"
  proof (cases "obter_pedido_autorizado id_pedido session usr")
    case (Inl e)
    with r show ?thesis by (simp add: rota_adicionar_item_pedido_def)
  next
    case (Inr ped)
    with r show ?thesis by (simp add: rota_adicionar_item_pedido_def)
  qed
  then obtain ped where a: "obter_pedido_autorizado id_pedido session usr = Inr ped"
    and h: "adicionar_item_pedido py item_schema ped session = (Inr ped', session')"
    by blast
  from a have f: "find (\<lambda>p. pedido_id p = id_pedido) (pedidos session) = Some ped"
    by (rule obter_pedido_autorizado_Inr)
  then have i: "pedido_id ped = id_pedido" by (rule find_pedido_id)
  from f i have f': "find (\<lambda>p. pedido_id p = pedido_id ped) (pedidos session) = Some ped"
    by simp
  from h have s': "session' = snd (adicionar_item_pedido py item_schema ped session)"
    by simp
  have inv: "integridade session \<and> preco_em_dia py session \<longrightarrow>
              integridade session' \<and> preco_em_dia py session'"
    unfolding s'
    using integridade_adicionar_item_pedido [OF _ f'] preco_em_dia_adicionar_item_pedido
    by blast
  from adicionar_item_pedido_commit [OF f' h adicionar_item_pedido_Inr [OF h]]
  obtain ped'' item where c: "Inr ped' = (Inr ped'' :: exn + 'f Pedido)"
    "find (\<lambda>p. pedido_id p = pedido_id ped) (pedidos session') = Some ped''"
    "itens session' ped'' = itens session ped @ [item]"
    "quantidade item = quantidade item_schema"
    "preco_unitario item = preco_unitario item_schema"
    "preco ped'' = py_sum py
       (map (\<lambda>item. preco_unitario item * to_float py (quantidade item)) (itens session' ped''))"
    by blast
  from c(1) have e: "ped'' = ped'" by simp
  have 1: "find (\<lambda>p. pedido_id p = id_pedido) (pedidos session') = Some ped'"
    using c(2) i e by simp
  have 2: "\<exists>ped item. find (\<lambda>p. pedido_id p = id_pedido) (pedidos session) = Some ped
              \<and> itens session' ped' = itens session ped @ [item]
              \<and> quantidade item = quantidade item_schema
              \<and> preco_unitario item = preco_unitario item_schema"
    using f c(3,4,5) e by blast
  have 3: "preco ped' = py_sum py
              (map (\<lambda>item. preco_unitario item * to_float py (quantidade item)) (itens session' ped'))"
    using c(6) e by simp
  show ?depois_add by (intro conjI 1 2 3 inv)
next
  assume r: ?rem
  have "\<exists>item. obter_item_pedido_autorizado id_item_pedido session usr = Inr item
          \<and> remover_item_pedido py item session = (Inr ped', session')"
  proof (cases "obter_item_pedido_autorizado id_item_pedido session usr")
    case (Inl e)
    with r show ?thesis by (simp add: rota_remover_item_pedido_def)
  next
    case (Inr item)
    with r show ?thesis by (simp add: rota_remover_item_pedido_def)
  qed
  then obtain item where a: "obter_item_pedido_autorizado id_item_pedido session usr = Inr item"
    and h: "remover_item_pedido py item session = (Inr ped', session')"
    by blast
  from a have f: "find (\<lambda>i. item_id i = id_item_pedido) (itens_pedido session) = Some item"
    by (rule obter_item_pedido_autorizado_Inr)
  from f have m: "item \<in> set (itens_pedido session)"
    by (rule find_item_mem [THEN conjunct1])
  from f have k: "item_id item = id_item_pedido"
    by (rule find_item_mem [THEN conjunct2])
  from h have s': "session' = snd (remover_item_pedido py item session)"
    by simp
  have inv: "integridade session \<and> preco_em_dia py session \<longrightarrow>
              integridade session' \<and> preco_em_dia py session'"
    unfolding s'
    using integridade_remover_item_pedido preco_em_dia_remover_item_pedido [OF _ _ m]
    by blast
  from remover_item_pedido_commit [OF h]
  obtain ped where c:
    "find (\<lambda>p. pedido_id p = pedido item) (pedidos session) = Some ped"
    "find (\<lambda>p. pedido_id p = pedido item) (pedidos session') = Some ped'"
    "itens session' ped' = filter (\<lambda>i. item_id i \<noteq> item_id item) (itens session ped)"
    "preco ped' = py_sum py
       (map (\<lambda>item. preco_unitario item * to_float py (quantidade item)) (itens session' ped'))"
    by blast
  have 1: "\<exists>ped item. find (\<lambda>i. item_id i = id_item_pedido) (itens_pedido session) = Some item
              \<and> find (\<lambda>p. pedido_id p = pedido item) (pedidos session) = Some ped
              \<and> find (\<lambda>p. pedido_id p = pedido item) (pedidos session') = Some ped'
              \<and> itens session' ped'
                  = filter (\<lambda>i. item_id i \<noteq> id_item_pedido) (itens session ped)"
    using f c(1,2) c(3) [unfolded k] by blast
  show ?depois_rem by (intro conjI 1 c(4) inv)
qed


theorem preco_apos_mutacao_witness:
  "integridade sessao_exemplo \<and> preco_em_dia preco_inteiro sessao_exemplo
   \<and> (\<exists>session'. rota_adicionar_item_pedido preco_inteiro 1 agua ana sessao_exemplo
          = (Inr \<lparr>pedido_id = 1, status = ''PENDENTE'', usuario = 1, preco = 31\<rparr>, session')
        \<and> find (\<lambda>p. pedido_id p = 1) (pedidos session')
          = Some \<lparr>pedido_id = 1, status = ''PENDENTE'', usuario = 1, preco = 31\<rparr>
        \<and> integridade session' \<and> preco_em_dia preco_inteiro session')
   \<and> (\<exists>session'. rota_remover_item_pedido preco_inteiro 1 ana sessao_exemplo
          = (Inr \<lparr>pedido_id = 1, status = ''PENDENTE'', usuario = 1, preco = 5\<rparr>, session')
        \<and> find (\<lambda>p. pedido_id p = 1) (pedidos session')
          = Some \<lparr>pedido_id = 1, status = ''PENDENTE'', usuario = 1, preco = 5\<rparr>
        \<and> integridade session' \<and> preco_em_dia preco_inteiro session')"
proof -
  have i: "integridade sessao_exemplo"
    by (simp add: integridade_def exemplo_defs)
  have p: "preco_em_dia preco_inteiro sessao_exemplo"
    by (simp add: preco_em_dia_def itens_def exemplo_defs)
  have "fst (rota_adicionar_item_pedido preco_inteiro 1 agua ana sessao_exemplo)
          = Inr \<lparr>pedido_id = 1, status = ''PENDENTE'', usuario = 1, preco = 31\<rparr>"
    by (simp add: rota_adicionar_item_pedido_def obter_pedido_autorizado_def
        adicionar_item_pedido_def calcular_preco_def itens_def Let_def exemplo_defs)
  then have a: "rota_adicionar_item_pedido preco_inteiro 1 agua ana sessao_exemplo
          = (Inr \<lparr>pedido_id = 1, status = ''PENDENTE'', usuario = 1, preco = 31\<rparr>,
             snd (rota_adicionar_item_pedido preco_inteiro 1 agua ana sessao_exemplo))"
    by (metis prod.collapse)
  have "fst (rota_remover_item_pedido preco_inteiro 1 ana sessao_exemplo)
          = Inr \<lparr>pedido_id = 1, status = ''PENDENTE'', usuario = 1, preco = 5\<rparr>"
    by (simp add: rota_remover_item_pedido_def obter_item_pedido_autorizado_def
        remover_item_pedido_def calcular_preco_def itens_def Let_def exemplo_defs)
  then have r: "rota_remover_item_pedido preco_inteiro 1 ana sessao_exemplo
          = (Inr \<lparr>pedido_id = 1, status = ''PENDENTE'', usuario = 1, preco = 5\<rparr>,
             snd (rota_remover_item_pedido preco_inteiro 1 ana sessao_exemplo))"
    by (metis prod.collapse)
  have pb: "pedido burger = 1" by (simp add: burger_def)
  from preco_apos_mutacao [THEN conjunct1, rule_format, OF a] i p
  have A: "\<exists>session'. rota_adicionar_item_pedido preco_inteiro 1 agua ana sessao_exemplo
          = (Inr \<lparr>pedido_id = 1, status = ''PENDENTE'', usuario = 1, preco = 31\<rparr>, session')
        \<and> find (\<lambda>p. pedido_id p = 1) (pedidos session')
          = Some \<lparr>pedido_id = 1, status = ''PENDENTE'', usuario = 1, preco = 31\<rparr>
        \<and> integridade session' \<and> preco_em_dia preco_inteiro session'"
    using a by blast
  have fi: "find (\<lambda>i. item_id i = 1) (itens_pedido sessao_exemplo) = Some burger"
    by (simp add: exemplo_defs)
  from preco_apos_mutacao [THEN conjunct2, rule_format, OF r] i p fi pb
  have R: "\<exists>session'. rota_remover_item_pedido preco_inteiro 1 ana sessao_exemplo
          = (Inr \<lparr>pedido_id = 1, status = ''PENDENTE'', usuario = 1, preco = 5\<rparr>, session')
        \<and> find (\<lambda>p. pedido_id p = 1) (pedidos session')
          = Some \<lparr>pedido_id = 1, status = ''PENDENTE'', usuario = 1, preco = 5\<rparr>
        \<and> integridade session' \<and> preco_em_dia preco_inteiro session'"
    using r by auto
  show ?thesis by (intro conjI i p A R)
qed





section \<open>Reading back a printed integer\<close>

lemma digit_cases:
  "d < (10::nat) \<Longrightarrow> d = 0 \<or> d = 1 \<or> d = 2 \<or> d = 3 \<or> d = 4 \<or> d = 5 \<or> d = 6 \<or> d = 7 \<or> d = 8 \<or> d = 9"
  by arith

lemma digit_char_props:
  assumes "d < 10"
  shows "digit_val (digit_char d) = Some d" and "\<not> isspace (digit_char d)"
    and "digit_char d \<noteq> CHR ''-''" and "digit_char d \<noteq> CHR ''+''"
    and "ascii (digit_char d)"
  using digit_cases [OF assms]
  by (auto simp: digit_char_def digit_val_def isspace_def ascii_def)

lemma str_nat_eq:
  "str_nat n = (if n < 10 then [digit_char n] else str_nat (n div 10) @ [digit_char (n mod 10)])"
  by (rule str_nat.simps)

lemma str_nat_snoc: "\<exists>cs. str_nat n = cs @ [digit_char (n mod 10)]"
  by (subst str_nat_eq) simp

lemma str_nat_digits: "c \<in> set (str_nat n) \<Longrightarrow> \<exists>d<10. c = digit_char d"
proof (induction n arbitrary: c rule: str_nat.induct)
  case (1 n)
  show ?case
  proof (cases "n < 10")
    case True
    with "1.prems" show ?thesis by (subst (asm) str_nat_eq) auto
  next
    case False
    with "1.prems" have "c \<in> set (str_nat (n div 10)) \<or> c = digit_char (n mod 10)"
      by (subst (asm) str_nat_eq) auto
    then show ?thesis
    proof
      assume "c \<in> set (str_nat (n div 10))"
      with False "1.IH" show ?thesis by blast
    next
      assume "c = digit_char (n mod 10)"
      moreover have "n mod 10 < 10" by simp
      ultimately show ?thesis by blast
    qed
  qed
qed

lemma digits_value_snoc:
  assumes "\<forall>c\<in>set cs. \<exists>d<10. c = digit_char d" and "d < 10"
    and "digits_value acc cs = Some v"
  shows "digits_value acc (cs @ [digit_char d]) = Some (10 * v + int d)"
  using assms
proof (induction cs arbitrary: acc)
  case Nil
  then show ?case by (simp add: digit_char_props)
next
  case (Cons c cs)
  from Cons.prems(1) obtain k where k: "k < 10" "c = digit_char k" by auto
  with Cons.prems(3) have "digits_value (10 * acc + int k) cs = Some v"
    by (simp add: digit_char_props)
  with Cons.IH Cons.prems(1,2) have "digits_value (10 * acc + int k) (cs @ [digit_char d]) = Some (10 * v + int d)"
    by simp
  with k show ?case by (simp add: digit_char_props)
qed

lemma digits_value_str_nat: "digits_value 0 (str_nat n) = Some (int n)"
proof (induction n rule: str_nat.induct)
  case (1 n)
  show ?case
  proof (cases "n < 10")
    case True
    then show ?thesis by (subst str_nat_eq) (simp add: digit_char_props)
  next
    case False
    with "1.IH" have ih: "digits_value 0 (str_nat (n div 10)) = Some (int (n div 10))" by simp
    have "digits_value 0 (str_nat (n div 10) @ [digit_char (n mod 10)])
            = Some (10 * int (n div 10) + int (n mod 10))"
      by (rule digits_value_snoc [OF _ _ ih]) (auto dest: str_nat_digits)
    moreover have "10 * int (n div 10) + int (n mod 10) = int n"
      by (simp add: zdiv_int zmod_int)
    ultimately show ?thesis using False by (subst str_nat_eq) simp
  qed
qed

lemma str_nat_Cons: "\<exists>d cs. d < 10 \<and> str_nat n = digit_char d # cs"
proof -
  obtain cs where cs: "str_nat n = cs @ [digit_char (n mod 10)]"
    using str_nat_snoc by blast
  then have "str_nat n \<noteq> []" by simp
  then obtain c cs' where c: "str_nat n = c # cs'" by (cases "str_nat n") auto
  then have "c \<in> set (str_nat n)" by simp
  then obtain d where "d < 10" "c = digit_char d" using str_nat_digits by blast
  with c show ?thesis by blast
qed

lemma strip_str_nat: "strip (str_nat n) = str_nat n"
proof -
  obtain d cs where d: "d < 10" "str_nat n = digit_char d # cs" using str_nat_Cons by blast
  obtain cs' where l: "str_nat n = cs' @ [digit_char (n mod 10)]" using str_nat_snoc by blast
  have 1: "dropWhile isspace (str_nat n) = str_nat n"
    using d by (simp add: digit_char_props)
  have 2: "dropWhile isspace (rev (str_nat n)) = rev (str_nat n)"
    using l by (simp add: digit_char_props)
  show ?thesis by (simp add: strip_def 1 2)
qed

lemma strip_minus_str_nat: "strip (CHR ''-'' # str_nat n) = CHR ''-'' # str_nat n"
proof -
  obtain cs' where l: "str_nat n = cs' @ [digit_char (n mod 10)]" using str_nat_snoc by blast
  have 1: "dropWhile isspace (CHR ''-'' # str_nat n) = CHR ''-'' # str_nat n"
    by (simp add: isspace_def)
  have 2: "dropWhile isspace (rev (CHR ''-'' # str_nat n)) = rev (CHR ''-'' # str_nat n)"
    using l by (simp add: digit_char_props)
  show ?thesis unfolding strip_def 1 2 by simp
qed

lemma py_int_body:
  assumes "str_nat n = digit_char d # cs" and "d < 10"
  shows "digit_val (digit_char d) = Some d \<and> digits_value (int d) cs = Some (int n)"
proof -
  have "digits_value 0 (digit_char d # cs) = Some (int n)"
    using digits_value_str_nat [of n] assms(1) by simp
  with assms(2) show ?thesis by (simp add: digit_char_props)
qed

lemma int_ascii_str_int: "int_ascii (str_int i) = Some i"
proof -
  define n where "n = (if i < 0 then nat (- i) else nat i)"
  obtain d cs where d: "d < 10" "str_nat n = digit_char d # cs" using str_nat_Cons by blast
  from py_int_body [OF d(2) d(1)]
  have v: "digit_val (digit_char d) = Some d" "digits_value (int d) cs = Some (int n)" by simp_all
  show ?thesis
  proof (cases "i < 0")
    case True
    then have "str_int i = CHR ''-'' # str_nat n" by (simp add: str_int_def n_def)
    then have "int_ascii (str_int i) = Some (- int n)"
      by (simp add: int_ascii_def Let_def strip_minus_str_nat) (simp add: d v)
    with True show ?thesis by (simp add: n_def)
  next
    case False
    then have "str_int i = str_nat n" by (simp add: str_int_def n_def)
    then have "int_ascii (str_int i) = Some (int n)"
      by (simp add: int_ascii_def Let_def strip_str_nat) (simp add: d v digit_char_props)
    with False show ?thesis by (simp add: n_def)
  qed
qed

text \<open>The printed form of an integer of 64 bits is inside the fragment.\<close>

lemma length_str_nat: "n < 10 ^ k \<Longrightarrow> 0 < k \<Longrightarrow> length (str_nat n) \<le> k"
proof (induction n arbitrary: k rule: str_nat.induct)
  case (1 n)
  show ?case
  proof (cases "n < 10")
    case True
    with "1.prems" show ?thesis by (subst str_nat_eq) simp
  next
    case False
    from "1.prems"(2) obtain k' where k: "k = Suc k'" by (cases k) auto
    with "1.prems"(1) have d: "n div 10 < 10 ^ k'" by (simp add: less_mult_imp_div_less)
    have "0 < k'"
    proof (rule ccontr)
      assume "\<not> 0 < k'"
      with "1.prems"(1) k False show False by simp
    qed
    with "1.IH" [OF False d] have "length (str_nat (n div 10)) \<le> k'" by simp
    with False k show ?thesis by (subst str_nat_eq) simp
  qed
qed

lemma ascii_str_nat: "list_all ascii (str_nat n)"
proof -
  have "ascii c" if "c \<in> set (str_nat n)" for c
  proof -
    from that obtain d where "d < 10" "c = digit_char d" using str_nat_digits by blast
    then show ?thesis by (simp add: digit_char_props)
  qed
  then show ?thesis by (simp add: list_all_iff)
qed

lemma py_int_str_int:
  assumes "sqlite_int i"
  shows "py_int outros (str_int i) = Some i"
proof -
  have "nat \<bar>i\<bar> < 10 ^ 19"
    using assms by (simp add: sqlite_int_def) linarith
  then have "length (str_nat (nat \<bar>i\<bar>)) \<le> 19"
    by (rule length_str_nat) simp
  then have l: "length (str_int i) \<le> 640"
    by (cases "i < 0") (simp_all add: str_int_def abs_if)
  have a: "list_all ascii (str_int i)"
    by (simp add: str_int_def ascii_str_nat ascii_def)
  from l a show ?thesis by (simp add: py_int_def int_ascii_str_int)
qed

section \<open>Accounts and tokens\<close>

lemma find_email_mem:
  "find (\<lambda>u. email u = x) us = Some usr \<Longrightarrow> usr \<in> set us \<and> email usr = x"
  by (induction us) (auto split: if_splits)

lemma find_com_ativo_email:
  "find (\<lambda>u. email u = x) (map (\<lambda>u. u\<lparr>ativo := f u\<rparr>) us)
     = map_option (\<lambda>u. u\<lparr>ativo := f u\<rparr>) (find (\<lambda>u. email u = x) us)"
  by (induction us) auto

lemma find_com_ativo_id:
  "find (\<lambda>u. usuario_id u = x) (map (\<lambda>u. u\<lparr>ativo := f u\<rparr>) us)
     = map_option (\<lambda>u. u\<lparr>ativo := f u\<rparr>) (find (\<lambda>u. usuario_id u = x) us)"
  by (induction us) auto

text \<open>
  Where the optional resolution does return \<^verbatim>\<open>None\<close>: no token or an empty one, a
  token that the library refuses, a payload with no \<^verbatim>\<open>sub\<close>, and a \<^verbatim>\<open>sub\<close> that
  \<^verbatim>\<open>int\<close> reads as an integer of 64 bits that is no stored id.
\<close>

lemma pegar_usuario_logado_opcional_None:
  "pegar_usuario_logado_opcional e session None = Inr None"
  "pegar_usuario_logado_opcional e session (Some []) = Inr None"
  "jwt_decode e t = None \<Longrightarrow> pegar_usuario_logado_opcional e session (Some t) = Inr None"
  "jwt_decode e t = Some pl \<Longrightarrow> sub pl = None \<Longrightarrow>
     pegar_usuario_logado_opcional e session (Some t) = Inr None"
  "jwt_decode e t = Some pl \<Longrightarrow> sub pl = Some s \<Longrightarrow> py_int (int_outros e) s = Some n \<Longrightarrow>
     sqlite_int n \<Longrightarrow> find (\<lambda>u. usuario_id u = n) (usuarios session) = None \<Longrightarrow>
     pegar_usuario_logado_opcional e session (Some t) = Inr None"
  by (simp_all add: pegar_usuario_logado_opcional_def)

text \<open>
  A \<^verbatim>\<open>sub\<close> that \<^verbatim>\<open>int\<close> reads as an integer outside 64 bits makes the query raise.
\<close>

lemma pegar_usuario_logado_opcional_OverflowError:
  "t \<noteq> [] \<Longrightarrow> jwt_decode e t = Some pl \<Longrightarrow> sub pl = Some s \<Longrightarrow>
   py_int (int_outros e) s = Some n \<Longrightarrow> \<not> sqlite_int n \<Longrightarrow>
   pegar_usuario_logado_opcional e session (Some t) = Inl OverflowError"
  by (simp add: pegar_usuario_logado_opcional_def)

text \<open>
  C5. The optional resolution is not total in the claim's sense: \<^verbatim>\<open>int(id_usuario)\<close>
  stands after the \<^verbatim>\<open>try\<close> block, so for a token that the library accepts and
  whose \<^verbatim>\<open>sub\<close> claim is a string that \<^verbatim>\<open>int\<close> rejects, the function raises
  \<^verbatim>\<open>ValueError\<close> where the claim (and the function's docstring) say it returns
  \<^verbatim>\<open>None\<close>.
\<close>

theorem pegar_usuario_logado_opcional_ValueError:
  assumes "t \<noteq> []" and "jwt_decode e t = Some pl" and "sub pl = Some s"
    and "py_int (int_outros e) s = None"
  shows "pegar_usuario_logado_opcional e session (Some t) = Inl ValueError"
  using assms by (simp add: pegar_usuario_logado_opcional_def)

theorem pegar_usuario_logado_opcional_ValueError_witness:
  "''jwt:abc'' \<noteq> []
   \<and> jwt_decode env_exemplo ''jwt:abc'' = Some \<lparr>sub = Some ''abc'', exp = None\<rparr>
   \<and> py_int (int_outros env_exemplo) ''abc'' = None
   \<and> pegar_usuario_logado_opcional env_exemplo sessao_exemplo (Some ''jwt:abc'') = Inl ValueError"
proof -
  have 1: "''jwt:abc'' \<noteq> []" by simp
  have 2: "jwt_decode env_exemplo ''jwt:abc'' = Some \<lparr>sub = Some ''abc'', exp = None\<rparr>"
    by (simp add: env_exemplo_def)
  have 3: "sub \<lparr>sub = Some ''abc'', exp = None\<rparr> = Some ''abc''" by simp
  have 4: "py_int (int_outros env_exemplo) ''abc'' = None"
    by (simp add: py_int_def ascii_def int_ascii_def strip_def isspace_def digit_val_def)
  from pegar_usuario_logado_opcional_ValueError [OF 1 2 3 4, of sessao_exemplo]
  show ?thesis using 2 4 by simp
qed





text \<open>
  The two failures that \<^verbatim>\<open>autenticar_usuario\<close> itself produces are one: when no
  account has the email, and when the account exists and \<^verbatim>\<open>bcrypt_context.verify\<close>
  returns false, the function returns \<^verbatim>\<open>False\<close> and the login raises the same HTTP
  401, with the same detail and the same headers.
\<close>

lemma falha_de_login_uniforme:
  assumes "find (\<lambda>u. email u = email1) (usuarios session1) = None"
    and "find (\<lambda>u. email u = email2) (usuarios session2) = Some usr"
    and "bcrypt_verify e2 senha2 (senha usr) = Inr False"
  shows "autenticar_usuario e1 email1 senha1 session1 = Inr None
       \<and> autenticar_usuario e2 email2 senha2 session2 = Inr None
       \<and> login e1 \<lparr>login_email = email1, login_senha = senha1\<rparr> session1
           = Inl (HTTPException 401 msg_credenciais [(''WWW-Authenticate'', ''Bearer'')])
       \<and> login e2 \<lparr>login_email = email2, login_senha = senha2\<rparr> session2
           = login e1 \<lparr>login_email = email1, login_senha = senha1\<rparr> session1"
  using assms by (simp add: autenticar_usuario_def login_def)

text \<open>
  C9. The failure does not have one shape in every failing run. The password is
  verified only when the email is stored, and neither \<^verbatim>\<open>autenticar_usuario\<close> nor
  \<^verbatim>\<open>login\<close> has a \<^verbatim>\<open>try\<close>: with a password that the verification refuses by raising
  (passlib does so for a NUL byte), the login for a stored email raises that
  exception (HTTP 500), while the login for an email that is not stored raises the
  HTTP 401. The two responses tell whether the email exists.
\<close>

theorem login_revela_email_quando_verify_levanta:
  assumes "find (\<lambda>u. email u = email1) (usuarios session1) = None"
    and "find (\<lambda>u. email u = email2) (usuarios session2) = Some usr"
    and "bcrypt_verify e senha' (senha usr) = Inl x"
  shows "login e \<lparr>login_email = email1, login_senha = senha'\<rparr> session1
           = Inl (HTTPException 401 msg_credenciais [(''WWW-Authenticate'', ''Bearer'')])
       \<and> login e \<lparr>login_email = email2, login_senha = senha'\<rparr> session2 = Inl x"
  using assms by (simp add: autenticar_usuario_def login_def)

theorem login_revela_email_quando_verify_levanta_witness:
  "find (\<lambda>u. email u = ''zed@x.com'') (usuarios sessao_exemplo) = None
   \<and> find (\<lambda>u. email u = ''ana@x.com'') (usuarios sessao_exemplo) = Some ana
   \<and> bcrypt_verify env_exemplo [CHR 0x00] (senha ana) = Inl ValueError
   \<and> login env_exemplo \<lparr>login_email = ''zed@x.com'', login_senha = [CHR 0x00]\<rparr> sessao_exemplo
       = Inl (HTTPException 401 msg_credenciais [(''WWW-Authenticate'', ''Bearer'')])
   \<and> login env_exemplo \<lparr>login_email = ''ana@x.com'', login_senha = [CHR 0x00]\<rparr> sessao_exemplo
       = Inl ValueError"
proof -
  have 1: "find (\<lambda>u. email u = ''zed@x.com'') (usuarios sessao_exemplo) = None"
    by (simp add: exemplo_defs)
  have 2: "find (\<lambda>u. email u = ''ana@x.com'') (usuarios sessao_exemplo) = Some ana"
    by (simp add: exemplo_defs)
  have 3: "bcrypt_verify env_exemplo [CHR 0x00] (senha ana) = Inl ValueError"
    by (simp add: exemplo_defs)
  from login_revela_email_quando_verify_levanta [OF 1 2 3]
  show ?thesis using 1 2 3 by simp
qed

text \<open>
  C10. No function reads \<^verbatim>\<open>ativo\<close>. Whatever the flag of an account is: with the
  password that verifies, \<^verbatim>\<open>autenticar_usuario\<close> returns the account and the login
  issues its two tokens; a token that decodes to the id of a stored account (an
  integer of 64 bits, as every stored id is) resolves to the account. Replacing every
  stored flag changes no result of these functions but the flag in an account they
  return, and replacing the flag of the authenticated user changes no decision of the
  authorisation or of the listings.
\<close>

theorem ativo_nunca_consultado:
  "(find (\<lambda>u. email u = email') (usuarios session) = Some usr
      \<and> bcrypt_verify e senha' (senha usr) = Inr True \<longrightarrow>
        autenticar_usuario e email' senha' session = Inr (Some usr)
        \<and> login e \<lparr>login_email = email', login_senha = senha'\<rparr> session
            = Inr \<lparr>access_token =
                     criar_token e (usuario_id usr) (60 * ACCESS_TOKEN_EXPIRE_MINUTES e),
                   refresh_token = Some (criar_token e (usuario_id usr) (7 * 86400)),
                   token_type = ''Bearer''\<rparr>)
   \<and> (find (\<lambda>u. usuario_id u = usuario_id usr) (usuarios session) = Some usr
      \<and> sqlite_int (usuario_id usr)
      \<and> t \<noteq> [] \<and> jwt_decode e t = Some pl \<and> sub pl = Some (str_int (usuario_id usr)) \<longrightarrow>
        pegar_usuario_logado_opcional e session (Some t) = Inr (Some usr))
   \<and> autenticar_usuario e email' senha' (com_ativo f session)
       = map_sum id (map_option (\<lambda>u. u\<lparr>ativo := f u\<rparr>))
           (autenticar_usuario e email' senha' session)
   \<and> login e login_schema (com_ativo f session) = login e login_schema session
   \<and> pegar_usuario_logado_opcional e (com_ativo f session) token
       = map_sum id (map_option (\<lambda>u. u\<lparr>ativo := f u\<rparr>))
           (pegar_usuario_logado_opcional e session token)
   \<and> obter_pedido_autorizado id_pedido session (usr\<lparr>ativo := b\<rparr>)
       = obter_pedido_autorizado id_pedido session usr
   \<and> obter_item_pedido_autorizado id_item_pedido session (usr\<lparr>ativo := b\<rparr>)
       = obter_item_pedido_autorizado id_item_pedido session usr
   \<and> listar_todos_pedidos session (usr\<lparr>ativo := b\<rparr>) = listar_todos_pedidos session usr
   \<and> listar_meus_pedidos (usr\<lparr>ativo := b\<rparr>) session = listar_meus_pedidos usr session"
    (is "?autentica \<and> ?resolve \<and> ?a \<and> ?l \<and> ?p \<and> ?o1 \<and> ?o2 \<and> ?o3 \<and> ?o4")
proof -
  have 1: ?autentica
    by (simp add: autenticar_usuario_def login_def)
  have 2: ?resolve
    by (simp add: pegar_usuario_logado_opcional_def py_int_str_int)
  have 3: ?a
    by (simp add: autenticar_usuario_def com_ativo_def find_com_ativo_email
        split: option.splits sum.splits)
  have 4: ?l
    by (simp add: login_def autenticar_usuario_def com_ativo_def find_com_ativo_email
        split: option.splits sum.splits)
  have 5: ?p
    by (simp add: pegar_usuario_logado_opcional_def com_ativo_def find_com_ativo_id
        split: option.splits)
  have 6: ?o1 by (simp add: obter_pedido_autorizado_def split: option.splits)
  have 7: ?o2 by (simp add: obter_item_pedido_autorizado_def split: option.splits)
  have 8: ?o3 by (simp add: listar_todos_pedidos_def)
  have 9: ?o4 by (simp add: listar_meus_pedidos_def)
  show ?thesis by (intro conjI 1 2 3 4 5 6 7 8 9)
qed

theorem ativo_nunca_consultado_witness:
  "\<not> ativo bia
   \<and> find (\<lambda>u. email u = ''bia@x.com'') (usuarios sessao_exemplo) = Some bia
   \<and> bcrypt_verify env_exemplo ''pw2'' (senha bia) = Inr True
   \<and> sqlite_int (usuario_id bia)
   \<and> autenticar_usuario env_exemplo ''bia@x.com'' ''pw2'' sessao_exemplo = Inr (Some bia)
   \<and> login env_exemplo \<lparr>login_email = ''bia@x.com'', login_senha = ''pw2''\<rparr> sessao_exemplo
       = Inr \<lparr>access_token = ''jwt:2'', refresh_token = Some ''jwt:2'', token_type = ''Bearer''\<rparr>
   \<and> pegar_usuario_logado_opcional env_exemplo sessao_exemplo (Some ''jwt:2'') = Inr (Some bia)"
proof -
  have 0: "\<not> ativo bia" by (simp add: bia_def)
  have 1: "find (\<lambda>u. email u = ''bia@x.com'') (usuarios sessao_exemplo) = Some bia"
    by (simp add: exemplo_defs)
  have 2: "bcrypt_verify env_exemplo ''pw2'' (senha bia) = Inr True"
    by (simp add: exemplo_defs)
  have 3: "find (\<lambda>u. usuario_id u = usuario_id bia) (usuarios sessao_exemplo) = Some bia"
    by (simp add: exemplo_defs)
  have q: "sqlite_int (usuario_id bia)" by (simp add: exemplo_defs)
  have s2: "str_int (usuario_id bia) = ''2''"
    by (simp add: bia_def str_int_def str_nat.simps digit_char_def)
  have 4: "jwt_decode env_exemplo ''jwt:2'' = Some \<lparr>sub = Some ''2'', exp = None\<rparr>"
    by (simp add: env_exemplo_def)
  have tk: "criar_token env_exemplo (usuario_id bia) d = ''jwt:2''" for d
    by (simp add: criar_token_def s2) (simp add: env_exemplo_def)
  note t = ativo_nunca_consultado
             [where session = sessao_exemplo and usr = bia and e = env_exemplo]
  from t [THEN conjunct1, rule_format, OF conjI [OF 1 2]]
  have A: "autenticar_usuario env_exemplo ''bia@x.com'' ''pw2'' sessao_exemplo = Inr (Some bia)"
    and B: "login env_exemplo \<lparr>login_email = ''bia@x.com'', login_senha = ''pw2''\<rparr> sessao_exemplo
       = Inr \<lparr>access_token = ''jwt:2'', refresh_token = Some ''jwt:2'', token_type = ''Bearer''\<rparr>"
    by (simp_all add: tk)
  from t [THEN conjunct2, THEN conjunct1, rule_format,
          where t = "''jwt:2''" and pl = "\<lparr>sub = Some ''2'', exp = None\<rparr>"] 3 4 s2 q
  have C: "pegar_usuario_logado_opcional env_exemplo sessao_exemplo (Some ''jwt:2'') = Inr (Some bia)"
    by simp
  show ?thesis by (intro conjI 0 1 2 q A B C)
qed

end
